theory Spec2Isabelle
  imports Complex_Main "HOL-Library.Char_ord" "HOL-Library.List_Lexorder" "HOL-Library.Sublist"
begin

section \<open>JavaScript values and promises\<close>

text \<open>
  Strings are lists of 8-bit characters. An optional string parameter
  (\<^verbatim>\<open>locationId?: string\<close>) is a \<open>string option\<close>, \<open>None\<close> being
  \<^verbatim>\<open>undefined\<close>. JavaScript's truthiness of such a value, used by
  \<^verbatim>\<open>if (locationId)\<close> and \<^verbatim>\<open>locationId || this.locationId\<close>, is
  \<open>truthy\<close>: \<^verbatim>\<open>undefined\<close> and the empty string are falsy.
\<close>

definition truthy :: "string option \<Rightarrow> bool" where
  "truthy s = (case s of None \<Rightarrow> False | Some v \<Rightarrow> v \<noteq> [])"

text \<open>\<^verbatim>\<open>a || b\<close> for an optional string \<open>a\<close> and a string \<open>b\<close>.\<close>

definition or_else :: "string option \<Rightarrow> string \<Rightarrow> string" where
  "or_else a b = (case a of None \<Rightarrow> b | Some v \<Rightarrow> if v \<noteq> [] then v else b)"

text \<open>
  JSON values, as \<^verbatim>\<open>resp.json()\<close> produces them and as the handlers build
  them before \<^verbatim>\<open>JSON.stringify\<close>. An object is the list of its own properties in
  insertion order; a property whose value is \<^verbatim>\<open>undefined\<close> is left out, as
  \<^verbatim>\<open>JSON.stringify\<close> leaves it out.
\<close>

datatype json =
    JNull
  | JBool bool
  | JNumber rat
  | JString string
  | JArray "json list"
  | JObject "(string \<times> json) list"

text \<open>The properties of an object literal whose values are defined.\<close>

fun props :: "(string \<times> json option) list \<Rightarrow> (string \<times> json) list" where
  "props [] = []"
| "props ((k, None) # kvs) = props kvs"
| "props ((k, Some v) # kvs) = (k, v) # props kvs"

text \<open>\<^verbatim>\<open>{...data, key: v}\<close>: the property keeps its place when \<open>data\<close> has it, and
  is appended otherwise.\<close>

fun set_prop :: "string \<Rightarrow> json \<Rightarrow> (string \<times> json) list \<Rightarrow> (string \<times> json) list" where
  "set_prop k v [] = [(k, v)]"
| "set_prop k v ((k', v') # kvs) =
     (if k' = k then (k, v) # kvs else (k', v') # set_prop k v kvs)"

text \<open>The decimal digits of a number in a template literal (\<^verbatim>\<open>${resp.status}\<close>,
  \<^verbatim>\<open>${accounts.length}\<close>): natural numbers only.\<close>

definition digit :: "nat \<Rightarrow> char" where
  "digit d = ''0123456789'' ! d"

fun show_nat :: "nat \<Rightarrow> string" where
  "show_nat n = (if n < 10 then [digit n] else show_nat (n div 10) @ [digit (n mod 10)])"

declare show_nat.simps [simp del]

text \<open>
  An \<^verbatim>\<open>async\<close> computation over a state \<open>'s\<close> either fulfils with a value
  (\<open>Inr\<close>) or rejects (\<open>Inl\<close>); a rejection is the \<^verbatim>\<open>message\<close> of the thrown
  \<^verbatim>\<open>Error\<close>, which is all a \<^verbatim>\<open>catch (e)\<close> block of this program reads.
  \<open>await\<close> sequences two computations and lets a rejection pass, as
  \<^verbatim>\<open>await\<close> does outside a \<^verbatim>\<open>try\<close>; \<open>try_catch\<close> runs the handler on a
  rejection.
\<close>

type_synonym ('s, 'a) io = "'s \<Rightarrow> (string + 'a) \<times> 's"

definition resolve :: "'a \<Rightarrow> ('s, 'a) io" where
  "resolve a = (\<lambda>s. (Inr a, s))"

definition throw :: "string \<Rightarrow> ('s, 'a) io" where
  "throw e = (\<lambda>s. (Inl e, s))"

definition await :: "('s, 'a) io \<Rightarrow> ('a \<Rightarrow> ('s, 'b) io) \<Rightarrow> ('s, 'b) io" where
  "await m k = (\<lambda>s. case m s of (Inl e, s') \<Rightarrow> (Inl e, s') | (Inr a, s') \<Rightarrow> k a s')"

definition try_catch :: "('s, 'a) io \<Rightarrow> (string \<Rightarrow> ('s, 'a) io) \<Rightarrow> ('s, 'a) io" where
  "try_catch m h = (\<lambda>s. case m s of (Inl e, s') \<Rightarrow> h e s' | (Inr a, s') \<Rightarrow> (Inr a, s'))"

section \<open>The registry (D1 table \<^verbatim>\<open>sub_accounts\<close>)\<close>

text \<open>The interface \<^verbatim>\<open>SubAccount\<close>: one row of the table. The fields \<^verbatim>\<open>id\<close> and
  \<^verbatim>\<open>notes\<close> are \<open>id_sa\<close> and \<open>notes_sa\<close> here.\<close>

record SubAccount =
  id_sa :: string
  name :: string
  api_key :: string
  account_type :: string
  is_default :: int
  notes_sa :: "string option"
  created_at :: string
  updated_at :: string

text \<open>
  The D1 binding. \<open>rows\<close> is the table in rowid order, which is the order a scan without
  \<^verbatim>\<open>ORDER BY\<close> visits and the order \<^verbatim>\<open>.first()\<close> picks from; a table that does
  not exist yet has no rows (\<^verbatim>\<open>CREATE TABLE IF NOT EXISTS\<close> runs before every use).
  The database is a remote service, so a statement can reject for reasons the program
  does not control: \<open>faults\<close> is the schedule of these outcomes, the head deciding the
  next statement (\<open>Some msg\<close>: it rejects with that message and changes nothing;
  \<open>None\<close>, or an empty schedule: it runs).
\<close>

record D1Database =
  rows :: "SubAccount list"
  faults :: "string option list"

definition d1_exec :: "(SubAccount list \<Rightarrow> 'a \<times> SubAccount list) \<Rightarrow> (D1Database, 'a) io" where
  "d1_exec q db =
     (case faults db of
        Some msg # fs \<Rightarrow> (Inl msg, db\<lparr>faults := fs\<rparr>)
      | None # fs \<Rightarrow> (Inr (fst (q (rows db))), \<lparr>rows = snd (q (rows db)), faults = fs\<rparr>)
      | [] \<Rightarrow> (Inr (fst (q (rows db))), \<lparr>rows = snd (q (rows db)), faults = []\<rparr>))"

text \<open>
  The texts SQLite stores and is given are the bytes of their UTF-8 encoding. Its
  \<^verbatim>\<open>LOWER\<close> maps the 26 ASCII capitals and leaves every other byte as it is.
\<close>

definition lower_char :: "char \<Rightarrow> char" where
  "lower_char c =
     (case map_of (zip ''ABCDEFGHIJKLMNOPQRSTUVWXYZ'' ''abcdefghijklmnopqrstuvwxyz'') c of
        Some l \<Rightarrow> l
      | None \<Rightarrow> c)"

definition LOWER :: "string \<Rightarrow> string" where
  "LOWER s = map lower_char s"

text \<open>
  SQLite's \<^verbatim>\<open>LIKE\<close>, as the function \<^verbatim>\<open>likeFunc\<close> of SQLite computes it for a
  pattern and a text, with no escape character. Both arguments reach it as C strings:
  \<open>c_string\<close> is what such a string holds, the bytes before the first NUL.
\<close>

definition c_string :: "string \<Rightarrow> string" where
  "c_string z = takeWhile (\<lambda>b. b \<noteq> CHR 0x00) z"

text \<open>
  The comparison reads both strings one UTF-8 character at a time
  (\<^verbatim>\<open>sqlite3Utf8Read\<close>): a byte below \<^verbatim>\<open>0xC0\<close> is a character of its own; a byte
  from \<^verbatim>\<open>0xC0\<close> on starts a character that takes every continuation byte
  (\<^verbatim>\<open>0x80\<close> to \<^verbatim>\<open>0xBF\<close>) that follows, six bits each into a 32-bit value, the
  lead byte giving the first bits (\<open>utf8_lead\<close>, the table \<^verbatim>\<open>sqlite3Utf8Trans1\<close>);
  a value below \<^verbatim>\<open>0x80\<close>, a surrogate, \<^verbatim>\<open>0xFFFE\<close> and \<^verbatim>\<open>0xFFFF\<close>
  become \<^verbatim>\<open>0xFFFD\<close> (\<open>utf8_fix\<close>). \<open>utf8_chars pending z\<close> is the list of the
  characters of \<open>z\<close>, \<open>pending\<close> being the value of the character under way, if any.
\<close>

definition utf8_lead :: "nat \<Rightarrow> nat" where
  "utf8_lead b =
     (if b < 0xE0 then b mod 32 else if b < 0xF0 then b mod 16 else if b < 0xF8 then b mod 8
      else if b < 0xFC then b mod 4 else if b < 0xFE then b mod 2 else 0)"

definition utf8_fix :: "nat \<Rightarrow> nat" where
  "utf8_fix c =
     (if c < 0x80 \<or> (0xD800 \<le> c \<and> c \<le> 0xDFFF) \<or> c = 0xFFFE \<or> c = 0xFFFF then 0xFFFD else c)"

definition utf8_flush :: "nat option \<Rightarrow> nat list" where
  "utf8_flush pending = (case pending of None \<Rightarrow> [] | Some c \<Rightarrow> [utf8_fix c])"

fun utf8_chars :: "nat option \<Rightarrow> string \<Rightarrow> nat list" where
  "utf8_chars pending [] = utf8_flush pending"
| "utf8_chars pending (b # bs) =
     (if pending \<noteq> None \<and> 0x80 \<le> (of_char b :: nat) \<and> (of_char b :: nat) < 0xC0
      then utf8_chars (Some ((the pending * 64 + of_char b mod 64) mod 2 ^ 32)) bs
      else utf8_flush pending @
           (if 0xC0 \<le> (of_char b :: nat) then utf8_chars (Some (utf8_lead (of_char b))) bs
            else of_char b # utf8_chars None bs))"

text \<open>
  \<^verbatim>\<open>patternCompare\<close> for \<^verbatim>\<open>LIKE\<close>: \<^verbatim>\<open>%\<close> (37) matches any run of characters,
  \<^verbatim>\<open>_\<close> (95) exactly one character, any other character itself, two characters below
  \<^verbatim>\<open>0x80\<close> also when they differ in ASCII case only. \<open>after_matchAll\<close> is the code
  that follows a \<^verbatim>\<open>%\<close>, \<open>search c\<close> its loop that tries every place of the
  string where the next pattern character \<open>c\<close> stands. The third result,
  \<^verbatim>\<open>SQLITE_NOWILDCARDMATCH\<close>, ends the search of every enclosing \<^verbatim>\<open>%\<close> at
  once.
\<close>

datatype Match = MATCH | NOMATCH | NOWILDCARDMATCH

definition sqlite3Tolower :: "nat \<Rightarrow> nat" where
  "sqlite3Tolower c = (if 65 \<le> c \<and> c \<le> 90 then c + 32 else c)"

definition sqlite3Toupper :: "nat \<Rightarrow> nat" where
  "sqlite3Toupper c = (if 97 \<le> c \<and> c \<le> 122 then c - 32 else c)"

fun patternCompare :: "nat list \<Rightarrow> nat list \<Rightarrow> Match"
  and after_matchAll :: "nat list \<Rightarrow> nat list \<Rightarrow> Match"
  and search :: "nat \<Rightarrow> nat list \<Rightarrow> nat list \<Rightarrow> Match" where
  "patternCompare [] zString = (if zString = [] then MATCH else NOMATCH)"
| "patternCompare (c # zPattern) zString =
     (if c = 37 then after_matchAll zPattern zString
      else case zString of
             [] \<Rightarrow> NOMATCH
           | c2 # rest \<Rightarrow>
               if c = c2 \<or> (sqlite3Tolower c = sqlite3Tolower c2 \<and> c < 0x80 \<and> c2 < 0x80) \<or> c = 95
               then patternCompare zPattern rest
               else NOMATCH)"
| "after_matchAll [] zString = MATCH"
| "after_matchAll (c # zPattern) zString =
     (if c = 37 then after_matchAll zPattern zString
      else if c = 95 then
        (case zString of [] \<Rightarrow> NOWILDCARDMATCH | c2 # rest \<Rightarrow> after_matchAll zPattern rest)
      else search c zPattern zString)"
| "search c zPattern [] = NOWILDCARDMATCH"
| "search c zPattern (c2 # rest) =
     (if (if c < 0x80 then c2 = sqlite3Toupper c \<or> c2 = sqlite3Tolower c else c2 = c)
      then (case patternCompare zPattern rest of
              NOMATCH \<Rightarrow> search c zPattern rest
            | bMatch \<Rightarrow> bMatch)
      else search c zPattern rest)"

definition LIKE :: "string \<Rightarrow> string \<Rightarrow> bool" where
  "LIKE zB zA =
     (patternCompare (utf8_chars None (c_string zB)) (utf8_chars None (c_string zA)) = MATCH)"

text \<open>
  A statement that reads the table and whose evaluation can fail by itself: \<open>q\<close> gives
  the error SQLite raises (\<open>Inl\<close>) or the result, and the binding rejects with that
  error. The table is unchanged either way.
\<close>

definition d1_exec_fallible :: "(SubAccount list \<Rightarrow> string + 'a) \<Rightarrow> (D1Database, 'a) io" where
  "d1_exec_fallible q =
     await (d1_exec (\<lambda>rs. (q rs, rs)))
       (\<lambda>r. case r of Inl message \<Rightarrow> throw message | Inr a \<Rightarrow> resolve a)"

text \<open>\<^verbatim>\<open>CREATE TABLE IF NOT EXISTS sub_accounts (...)\<close>\<close>

definition initDb :: "(D1Database, unit) io" where
  "initDb = d1_exec (\<lambda>rs. ((), rs))"

text \<open>\<^verbatim>\<open>SELECT * FROM sub_accounts WHERE is_default = 1 LIMIT 1\<close>\<close>

definition getDefaultAccount :: "(D1Database, SubAccount option) io" where
  "getDefaultAccount = d1_exec (\<lambda>rs. (find (\<lambda>a. is_default a = 1) rs, rs))"

text \<open>\<^verbatim>\<open>SELECT * FROM sub_accounts WHERE id = ?\<close>\<close>

definition getAccountById :: "string \<Rightarrow> (D1Database, SubAccount option) io" where
  "getAccountById locationId = d1_exec (\<lambda>rs. (find (\<lambda>a. id_sa a = locationId) rs, rs))"

text \<open>
  \<^verbatim>\<open>SELECT * FROM sub_accounts WHERE LOWER(name) LIKE LOWER(?)\<close>, bound to
  \<^verbatim>\<open>`%${name}%`\<close>. The condition is evaluated row by row, so on a table with no
  rows \<^verbatim>\<open>LIKE\<close> is never called. When it is called, \<^verbatim>\<open>likeFunc\<close> first
  compares the byte length of the pattern with the limit
  \<^verbatim>\<open>SQLITE_LIMIT_LIKE_PATTERN_LENGTH\<close>, which D1 sets to 50, and raises
  \<^verbatim>\<open>LIKE or GLOB pattern too complex\<close> for a longer one. \<open>d1_error\<close> stands for
  the wording the D1 binding gives the message of the \<^verbatim>\<open>Error\<close> it throws for an
  error of SQLite.
\<close>

definition getAccountByName ::
  "(string \<Rightarrow> string) \<Rightarrow> string \<Rightarrow> (D1Database, SubAccount option) io" where
  "getAccountByName d1_error nameArg =
     d1_exec_fallible (\<lambda>rs.
       if rs \<noteq> [] \<and> 50 < length (LOWER (''%'' @ nameArg @ ''%''))
       then Inl (d1_error ''LIKE or GLOB pattern too complex'')
       else Inr (find (\<lambda>a. LIKE (LOWER (''%'' @ nameArg @ ''%'')) (LOWER (name a))) rs))"

section \<open>The credential and tenant resolver\<close>

record Env =
  GHL_API_KEY :: string
  GHL_LOCATION_ID :: string
  GHL_DB :: D1Database

text \<open>The private fields of a \<^verbatim>\<open>GHLClient\<close>, set by its constructor from the
  configuration.\<close>

record GHLClient =
  this_apiKey :: string
  this_locationId :: string

definition resolveClient :: "Env \<Rightarrow> string option \<Rightarrow> (string + GHLClient) \<times> D1Database" where
  "resolveClient env locationId =
     await initDb (\<lambda>_.
       if truthy locationId then
         await (getAccountById (the locationId)) (\<lambda>account.
           case account of
             Some acc \<Rightarrow> resolve \<lparr>this_apiKey = api_key acc, this_locationId = id_sa acc\<rparr>
           | None \<Rightarrow> resolve \<lparr>this_apiKey = GHL_API_KEY env, this_locationId = the locationId\<rparr>)
       else
         await getDefaultAccount (\<lambda>defaultAccount.
           case defaultAccount of
             Some acc \<Rightarrow> resolve \<lparr>this_apiKey = api_key acc, this_locationId = id_sa acc\<rparr>
           | None \<Rightarrow>
               resolve \<lparr>this_apiKey = GHL_API_KEY env, this_locationId = GHL_LOCATION_ID env\<rparr>))
     (GHL_DB env)"

section \<open>The account management tools\<close>

text \<open>
  What a handler returns: the text of its single content item and the error flag (absent
  in the source's success objects, \<open>False\<close> here).
\<close>

record ToolResult =
  content :: string
  isError :: bool

text \<open>The \<^verbatim>\<open>catch (e)\<close> block every handler with a \<^verbatim>\<open>try\<close> shares.\<close>

definition error_result :: "string \<Rightarrow> ToolResult" where
  "error_result message = \<lparr>content = ''Error: '' @ message, isError = True\<rparr>"

definition nl :: char where
  "nl = CHR 0x0A"

datatype AccountType = Agency | Sub_account

fun accountType_text :: "AccountType \<Rightarrow> string" where
  "accountType_text Agency = ''agency''"
| "accountType_text Sub_account = ''sub_account''"

text \<open>\<^verbatim>\<open>UPDATE sub_accounts SET is_default = 0\<close>\<close>

definition clear_defaults :: "SubAccount list \<Rightarrow> SubAccount list" where
  "clear_defaults rs = map (\<lambda>a. a\<lparr>is_default := 0\<rparr>) rs"

text \<open>\<^verbatim>\<open>INSERT OR REPLACE INTO sub_accounts (...) VALUES (...)\<close>: the row with the same
  primary key, if any, is deleted and the new row gets the next rowid.\<close>

definition insert_or_replace :: "SubAccount \<Rightarrow> SubAccount list \<Rightarrow> SubAccount list" where
  "insert_or_replace r rs = filter (\<lambda>a. id_sa a \<noteq> id_sa r) rs @ [r]"

text \<open>
  \<open>now\<close> is what \<^verbatim>\<open>datetime('now')\<close> gives during the call. The insert names no
  \<^verbatim>\<open>created_at\<close>, so the column takes its default, which is \<^verbatim>\<open>datetime('now')\<close>
  too.
\<close>

definition ghl_add_sub_account ::
  "string \<Rightarrow> Env \<Rightarrow> string \<Rightarrow> string \<Rightarrow> string \<Rightarrow> AccountType \<Rightarrow> bool \<Rightarrow> string option
     \<Rightarrow> (string + ToolResult) \<times> D1Database" where
  \<open>ghl_add_sub_account now env locationId nameArg apiKey accountType isDefault notesArg =
     try_catch
       (await initDb (\<lambda>_.
        await (if isDefault then d1_exec (\<lambda>rs. ((), clear_defaults rs)) else resolve ()) (\<lambda>_.
        await (d1_exec (\<lambda>rs. ((), insert_or_replace
                 \<lparr>id_sa = locationId, name = nameArg, api_key = apiKey,
                  account_type = accountType_text accountType,
                  is_default = (if isDefault then 1 else 0),
                  notes_sa = (if truthy notesArg then notesArg else None),
                  created_at = now, updated_at = now\<rparr> rs))) (\<lambda>_.
        resolve \<lparr>content = ''Sub-account "'' @ nameArg @ ''" ('' @ locationId @
                    '') registered successfully!'' @
                    (if isDefault then '' Set as default.'' else ''''),
                 isError = False\<rparr>))))
       (\<lambda>e. resolve (error_result e))
       (GHL_DB env)\<close>

text \<open>One row as \<^verbatim>\<open>SELECT id, name, account_type, is_default, notes, created_at,
  updated_at\<close> returns it.\<close>

definition listed :: "SubAccount \<Rightarrow> (string \<times> json) list" where
  "listed a =
     [(''id'', JString (id_sa a)), (''name'', JString (name a)),
      (''account_type'', JString (account_type a)),
      (''is_default'', JNumber (of_int (is_default a))),
      (''notes'', (case notes_sa a of None \<Rightarrow> JNull | Some n \<Rightarrow> JString n)),
      (''created_at'', JString (created_at a)), (''updated_at'', JString (updated_at a))]"

text \<open>
  \<^verbatim>\<open>... FROM sub_accounts ORDER BY name\<close>, under SQLite's default collation (byte
  order), rows of equal name in rowid order. \<open>stringify\<close> stands for the platform's
  \<^verbatim>\<open>JSON.stringify(x, null, 2)\<close>.
\<close>

definition ghl_list_sub_accounts ::
  "(json \<Rightarrow> string) \<Rightarrow> Env \<Rightarrow> (string + ToolResult) \<times> D1Database" where
  "ghl_list_sub_accounts stringify env =
     try_catch
       (await initDb (\<lambda>_.
        await (d1_exec (\<lambda>rs. (map listed (sort_key name rs), rs))) (\<lambda>results.
        if length results = 0 then
          resolve \<lparr>content = ''No sub-accounts registered yet. Use ghl_add_sub_account to add one.'',
                   isError = False\<rparr>
        else
          let accounts =
                map (\<lambda>a. set_prop ''is_default''
                            (JString (if map_of a ''is_default'' = Some (JNumber 1) then ''YES'' else ''no'')) a)
                    results
          in resolve \<lparr>content = show_nat (length accounts) @ '' sub-account(s) registered:'' @
                                 [nl, nl] @ stringify (JArray (map JObject accounts)),
                       isError = False\<rparr>)))
       (\<lambda>e. resolve (error_result e))
       (GHL_DB env)"

text \<open>\<^verbatim>\<open>UPDATE sub_accounts SET is_default = 1, updated_at = datetime('now') WHERE id = ?\<close>\<close>

definition mark_default :: "string \<Rightarrow> string \<Rightarrow> SubAccount list \<Rightarrow> SubAccount list" where
  "mark_default now i rs =
     map (\<lambda>a. if id_sa a = i then a\<lparr>is_default := 1, updated_at := now\<rparr> else a) rs"

definition ghl_set_default_account ::
  "(string \<Rightarrow> string) \<Rightarrow> string \<Rightarrow> Env \<Rightarrow> string option \<Rightarrow> string option
     \<Rightarrow> (string + ToolResult) \<times> D1Database" where
  \<open>ghl_set_default_account d1_error now env locationId nameArg =
     try_catch
       (await initDb (\<lambda>_.
        await (if truthy locationId then getAccountById (the locationId)
               else if truthy nameArg then getAccountByName d1_error (the nameArg)
               else resolve None) (\<lambda>account.
        case account of
          None \<Rightarrow>
            resolve \<lparr>content = ''Account not found. Use ghl_list_sub_accounts to see available accounts.'',
                     isError = True\<rparr>
        | Some acc \<Rightarrow>
            await (d1_exec (\<lambda>rs. ((), clear_defaults rs))) (\<lambda>_.
            await (d1_exec (\<lambda>rs. ((), mark_default now (id_sa acc) rs))) (\<lambda>_.
            resolve \<lparr>content = ''Default account set to "'' @ name acc @ ''" ('' @ id_sa acc @ '')'',
                     isError = False\<rparr>)))))
       (\<lambda>e. resolve (error_result e))
       (GHL_DB env)\<close>

text \<open>\<^verbatim>\<open>DELETE FROM sub_accounts WHERE id = ?\<close>\<close>

definition delete_by_id :: "string \<Rightarrow> SubAccount list \<Rightarrow> SubAccount list" where
  "delete_by_id i rs = filter (\<lambda>a. id_sa a \<noteq> i) rs"

definition ghl_remove_sub_account :: "Env \<Rightarrow> string \<Rightarrow> (string + ToolResult) \<times> D1Database" where
  \<open>ghl_remove_sub_account env locationId =
     try_catch
       (await initDb (\<lambda>_.
        await (getAccountById locationId) (\<lambda>account.
        case account of
          None \<Rightarrow> resolve \<lparr>content = ''Account not found.'', isError = True\<rparr>
        | Some acc \<Rightarrow>
            await (d1_exec (\<lambda>rs. ((), delete_by_id locationId rs))) (\<lambda>_.
            resolve \<lparr>content = ''Sub-account "'' @ name acc @ ''" ('' @ locationId @
                                '') removed from registry.'',
                     isError = False\<rparr>))))
       (\<lambda>e. resolve (error_result e))
       (GHL_DB env)\<close>

text \<open>\<^verbatim>\<open>UPDATE sub_accounts SET api_key = ?, updated_at = datetime('now') WHERE id = ?\<close>\<close>

definition set_api_key :: "string \<Rightarrow> string \<Rightarrow> string \<Rightarrow> SubAccount list \<Rightarrow> SubAccount list" where
  "set_api_key now apiKey i rs =
     map (\<lambda>a. if id_sa a = i then a\<lparr>api_key := apiKey, updated_at := now\<rparr> else a) rs"

definition ghl_update_sub_account_token ::
  "string \<Rightarrow> Env \<Rightarrow> string \<Rightarrow> string \<Rightarrow> (string + ToolResult) \<times> D1Database" where
  \<open>ghl_update_sub_account_token now env locationId apiKey =
     try_catch
       (await initDb (\<lambda>_.
        await (getAccountById locationId) (\<lambda>account.
        case account of
          None \<Rightarrow> resolve \<lparr>content = ''Account not found.'', isError = True\<rparr>
        | Some acc \<Rightarrow>
            await (d1_exec (\<lambda>rs. ((), set_api_key now apiKey locationId rs))) (\<lambda>_.
            resolve \<lparr>content = ''API token updated for "'' @ name acc @ ''" ('' @ locationId @ '')'',
                     isError = False\<rparr>))))
       (\<lambda>e. resolve (error_result e))
       (GHL_DB env)\<close>

section \<open>The HTTP client facade (\<^verbatim>\<open>GHLClient\<close>)\<close>

text \<open>
  What \<^verbatim>\<open>fetch\<close> is called with. The URL is kept in parts (base and path as the
  template literal joins them, then the query parameters in the order they are set) and
  the body is the value \<^verbatim>\<open>JSON.stringify\<close> is applied to: the platform's URL and
  JSON serialisers are not modelled.
\<close>

record HttpRequest =
  req_url :: string
  req_searchParams :: "(string \<times> string) list"
  req_method :: string
  req_headers :: "(string \<times> string) list"
  req_body :: "json option"

text \<open>
  The \<^verbatim>\<open>Response\<close> of the platform: \<open>text_body\<close> is what \<^verbatim>\<open>resp.text()\<close>
  fulfils with (the body is taken to have arrived in full), \<open>json_body\<close> what
  \<^verbatim>\<open>resp.json()\<close> settles to (\<open>Inl\<close> when the body is not JSON and the parser
  throws). \<^verbatim>\<open>resp.ok\<close> is the Fetch standard's: a status from 200 to 299.
\<close>

record Response =
  status :: nat
  statusText :: string
  text_body :: string
  json_body :: "string + json"

definition ok :: "Response \<Rightarrow> bool" where
  "ok resp = (200 \<le> status resp \<and> status resp \<le> 299)"

text \<open>The third parameter of \<^verbatim>\<open>request\<close>.\<close>

record RequestOptions =
  body :: "json option"
  query :: "(string \<times> string) list option"
  version :: "string option"

fun json_truthy :: "json \<Rightarrow> bool" where
  "json_truthy JNull = False"
| "json_truthy (JBool b) = b"
| "json_truthy (JNumber n) = (n \<noteq> 0)"
| "json_truthy (JString s) = (s \<noteq> [])"
| "json_truthy (JArray xs) = True"
| "json_truthy (JObject kvs) = True"

definition baseUrl :: string where
  "baseUrl = ''https://services.leadconnectorhq.com''"

definition headers :: "GHLClient \<Rightarrow> string option \<Rightarrow> (string \<times> string) list" where
  "headers this ver =
     [(''Authorization'', ''Bearer '' @ this_apiKey this),
      (''Content-Type'', ''application/json''),
      (''Accept'', ''application/json'')] @
     (if truthy ver then [(''Version'', the ver)] else [])"

text \<open>
  \<open>fetch\<close> is the platform's function, over the state \<open>'u\<close> of the network and the
  remote API: it fulfils with a response or rejects (\<open>Inl\<close>, a network failure).
\<close>

definition request ::
  "(HttpRequest \<Rightarrow> ('u, Response) io) \<Rightarrow> GHLClient \<Rightarrow> string \<Rightarrow> string \<Rightarrow> RequestOptions
     \<Rightarrow> ('u, json) io" where
  "request fetch this method path opts =
     await (fetch \<lparr>req_url = baseUrl @ path,
                   req_searchParams = (case query opts of Some q \<Rightarrow> q | None \<Rightarrow> []),
                   req_method = method,
                   req_headers = headers this (version opts),
                   req_body = (case body opts of
                                 Some b \<Rightarrow> if json_truthy b then Some b else None
                               | None \<Rightarrow> None)\<rparr>)
       (\<lambda>resp.
          if \<not> ok resp then
            throw (''GHL API Error '' @ show_nat (status resp) @ '': '' @ statusText resp @
                   '' - '' @ text_body resp)
          else (\<lambda>u. (json_body resp, u)))"

definition defaultLocationId :: "GHLClient \<Rightarrow> string" where
  "defaultLocationId this = this_locationId this"

text \<open>\<^verbatim>\<open>{...data, locationId: data.locationId || this.locationId}\<close>\<close>

definition with_locationId :: "GHLClient \<Rightarrow> (string \<times> json) list \<Rightarrow> json" where
  "with_locationId this data =
     JObject (set_prop ''locationId''
       (case map_of data ''locationId'' of
          Some v \<Rightarrow> if json_truthy v then v else JString (this_locationId this)
        | None \<Rightarrow> JString (this_locationId this)) data)"

definition getCustomFieldsByObjectKey ::
  "(HttpRequest \<Rightarrow> ('u, Response) io) \<Rightarrow> GHLClient \<Rightarrow> string \<Rightarrow> string option \<Rightarrow> ('u, json) io" where
  "getCustomFieldsByObjectKey fetch this objectKey locationId =
     request fetch this ''GET'' (''/custom-fields/object-key/'' @ objectKey)
       \<lparr>body = None,
        query = Some [(''locationId'', or_else locationId (this_locationId this))],
        version = Some ''2021-07-28''\<rparr>"

definition getCustomFieldById ::
  "(HttpRequest \<Rightarrow> ('u, Response) io) \<Rightarrow> GHLClient \<Rightarrow> string \<Rightarrow> ('u, json) io" where
  "getCustomFieldById fetch this i =
     request fetch this ''GET'' (''/custom-fields/'' @ i)
       \<lparr>body = None, query = None, version = Some ''2021-07-28''\<rparr>"

definition createCustomField ::
  "(HttpRequest \<Rightarrow> ('u, Response) io) \<Rightarrow> GHLClient \<Rightarrow> (string \<times> json) list \<Rightarrow> ('u, json) io" where
  "createCustomField fetch this data =
     request fetch this ''POST'' ''/custom-fields/''
       \<lparr>body = Some (with_locationId this data), query = None, version = Some ''2021-07-28''\<rparr>"

definition updateCustomField ::
  "(HttpRequest \<Rightarrow> ('u, Response) io) \<Rightarrow> GHLClient \<Rightarrow> string \<Rightarrow> (string \<times> json) list
     \<Rightarrow> ('u, json) io" where
  "updateCustomField fetch this i data =
     request fetch this ''PUT'' (''/custom-fields/'' @ i)
       \<lparr>body = Some (with_locationId this data), query = None, version = Some ''2021-07-28''\<rparr>"

definition deleteCustomField ::
  "(HttpRequest \<Rightarrow> ('u, Response) io) \<Rightarrow> GHLClient \<Rightarrow> string \<Rightarrow> ('u, json) io" where
  "deleteCustomField fetch this i =
     request fetch this ''DELETE'' (''/custom-fields/'' @ i)
       \<lparr>body = None, query = None, version = Some ''2021-07-28''\<rparr>"

definition createCustomFieldFolder ::
  "(HttpRequest \<Rightarrow> ('u, Response) io) \<Rightarrow> GHLClient \<Rightarrow> (string \<times> json) list \<Rightarrow> ('u, json) io" where
  "createCustomFieldFolder fetch this data =
     request fetch this ''POST'' ''/custom-fields/folder''
       \<lparr>body = Some (with_locationId this data), query = None, version = Some ''2021-07-28''\<rparr>"

definition updateCustomFieldFolder ::
  "(HttpRequest \<Rightarrow> ('u, Response) io) \<Rightarrow> GHLClient \<Rightarrow> string \<Rightarrow> (string \<times> json) list
     \<Rightarrow> ('u, json) io" where
  "updateCustomFieldFolder fetch this i data =
     request fetch this ''PUT'' (''/custom-fields/folder/'' @ i)
       \<lparr>body = Some (with_locationId this data), query = None, version = Some ''2021-07-28''\<rparr>"

definition deleteCustomFieldFolder ::
  "(HttpRequest \<Rightarrow> ('u, Response) io) \<Rightarrow> GHLClient \<Rightarrow> string \<Rightarrow> string option \<Rightarrow> ('u, json) io" where
  "deleteCustomFieldFolder fetch this i locationId =
     request fetch this ''DELETE'' (''/custom-fields/folder/'' @ i)
       \<lparr>body = None,
        query = Some [(''locationId'', or_else locationId (this_locationId this))],
        version = Some ''2021-07-28''\<rparr>"

definition getLocationCustomFields ::
  "(HttpRequest \<Rightarrow> ('u, Response) io) \<Rightarrow> GHLClient \<Rightarrow> string option \<Rightarrow> ('u, json) io" where
  "getLocationCustomFields fetch this locationId =
     (let locId = or_else locationId (this_locationId this)
      in request fetch this ''GET'' (''/locations/'' @ locId @ ''/customFields'')
           \<lparr>body = None, query = None, version = Some ''2021-07-28''\<rparr>)"

definition getLocationCustomField ::
  "(HttpRequest \<Rightarrow> ('u, Response) io) \<Rightarrow> GHLClient \<Rightarrow> string \<Rightarrow> string option \<Rightarrow> ('u, json) io" where
  "getLocationCustomField fetch this fieldId locationId =
     (let locId = or_else locationId (this_locationId this)
      in request fetch this ''GET'' (''/locations/'' @ locId @ ''/customFields/'' @ fieldId)
           \<lparr>body = None, query = None, version = Some ''2021-07-28''\<rparr>)"

definition createLocationCustomField ::
  "(HttpRequest \<Rightarrow> ('u, Response) io) \<Rightarrow> GHLClient \<Rightarrow> (string \<times> json) list \<Rightarrow> string option
     \<Rightarrow> ('u, json) io" where
  "createLocationCustomField fetch this data locationId =
     (let locId = or_else locationId (this_locationId this)
      in request fetch this ''POST'' (''/locations/'' @ locId @ ''/customFields'')
           \<lparr>body = Some (JObject data), query = None, version = Some ''2021-07-28''\<rparr>)"

definition updateLocationCustomField ::
  "(HttpRequest \<Rightarrow> ('u, Response) io) \<Rightarrow> GHLClient \<Rightarrow> string \<Rightarrow> (string \<times> json) list
     \<Rightarrow> string option \<Rightarrow> ('u, json) io" where
  "updateLocationCustomField fetch this fieldId data locationId =
     (let locId = or_else locationId (this_locationId this)
      in request fetch this ''PUT'' (''/locations/'' @ locId @ ''/customFields/'' @ fieldId)
           \<lparr>body = Some (JObject data), query = None, version = Some ''2021-07-28''\<rparr>)"

definition deleteLocationCustomField ::
  "(HttpRequest \<Rightarrow> ('u, Response) io) \<Rightarrow> GHLClient \<Rightarrow> string \<Rightarrow> string option \<Rightarrow> ('u, json) io" where
  "deleteLocationCustomField fetch this fieldId locationId =
     (let locId = or_else locationId (this_locationId this)
      in request fetch this ''DELETE'' (''/locations/'' @ locId @ ''/customFields/'' @ fieldId)
           \<lparr>body = None, query = None, version = Some ''2021-07-28''\<rparr>)"

definition getCustomValues ::
  "(HttpRequest \<Rightarrow> ('u, Response) io) \<Rightarrow> GHLClient \<Rightarrow> string option \<Rightarrow> ('u, json) io" where
  "getCustomValues fetch this locationId =
     (let locId = or_else locationId (this_locationId this)
      in request fetch this ''GET'' (''/locations/'' @ locId @ ''/customValues'')
           \<lparr>body = None, query = None, version = Some ''2021-07-28''\<rparr>)"

definition getCustomValue ::
  "(HttpRequest \<Rightarrow> ('u, Response) io) \<Rightarrow> GHLClient \<Rightarrow> string \<Rightarrow> string option \<Rightarrow> ('u, json) io" where
  "getCustomValue fetch this valueId locationId =
     (let locId = or_else locationId (this_locationId this)
      in request fetch this ''GET'' (''/locations/'' @ locId @ ''/customValues/'' @ valueId)
           \<lparr>body = None, query = None, version = Some ''2021-07-28''\<rparr>)"

definition createCustomValue ::
  "(HttpRequest \<Rightarrow> ('u, Response) io) \<Rightarrow> GHLClient \<Rightarrow> (string \<times> json) list \<Rightarrow> string option
     \<Rightarrow> ('u, json) io" where
  "createCustomValue fetch this data locationId =
     (let locId = or_else locationId (this_locationId this)
      in request fetch this ''POST'' (''/locations/'' @ locId @ ''/customValues'')
           \<lparr>body = Some (JObject data), query = None, version = Some ''2021-07-28''\<rparr>)"

definition updateCustomValue ::
  "(HttpRequest \<Rightarrow> ('u, Response) io) \<Rightarrow> GHLClient \<Rightarrow> string \<Rightarrow> (string \<times> json) list
     \<Rightarrow> string option \<Rightarrow> ('u, json) io" where
  "updateCustomValue fetch this valueId data locationId =
     (let locId = or_else locationId (this_locationId this)
      in request fetch this ''PUT'' (''/locations/'' @ locId @ ''/customValues/'' @ valueId)
           \<lparr>body = Some (JObject data), query = None, version = Some ''2021-07-28''\<rparr>)"

definition deleteCustomValue ::
  "(HttpRequest \<Rightarrow> ('u, Response) io) \<Rightarrow> GHLClient \<Rightarrow> string \<Rightarrow> string option \<Rightarrow> ('u, json) io" where
  "deleteCustomValue fetch this valueId locationId =
     (let locId = or_else locationId (this_locationId this)
      in request fetch this ''DELETE'' (''/locations/'' @ locId @ ''/customValues/'' @ valueId)
           \<lparr>body = None, query = None, version = Some ''2021-07-28''\<rparr>)"

section \<open>The custom field tools\<close>

text \<open>
  These handlers work on the registry and on the remote API: their state is the pair of
  both. \<open>on_db\<close> and \<open>on_upstream\<close> run a computation on its half.
\<close>

definition on_db :: "(D1Database, 'a) io \<Rightarrow> (D1Database \<times> 'u, 'a) io" where
  "on_db m = (\<lambda>(db, u). case m db of (r, db') \<Rightarrow> (r, (db', u)))"

definition on_upstream :: "('u, 'a) io \<Rightarrow> (D1Database \<times> 'u, 'a) io" where
  "on_upstream m = (\<lambda>(db, u). case m u of (r, u') \<Rightarrow> (r, (db, u')))"

definition ghl_list_contact_custom_fields ::
  "(HttpRequest \<Rightarrow> ('u, Response) io) \<Rightarrow> (json \<Rightarrow> string) \<Rightarrow> Env \<Rightarrow> string option \<Rightarrow> 'u
     \<Rightarrow> (string + ToolResult) \<times> (D1Database \<times> 'u)" where
  "ghl_list_contact_custom_fields fetch stringify env locationId u =
     try_catch
       (await (on_db (\<lambda>db. resolveClient (env\<lparr>GHL_DB := db\<rparr>) locationId)) (\<lambda>client.
        await (on_upstream (getLocationCustomFields fetch client None)) (\<lambda>result.
        resolve \<lparr>content = stringify result, isError = False\<rparr>)))
       (\<lambda>e. resolve (error_result e))
       (GHL_DB env, u)"

datatype DataType =
    TEXT | LARGE_TEXT | NUMERICAL | PHONE | MONETORY | CHECKBOX | SINGLE_OPTIONS
  | MULTIPLE_OPTIONS | DATE | FILE_UPLOAD | RADIO | EMAIL | TEXTBOX_LIST

fun dataType_text :: "DataType \<Rightarrow> string" where
  "dataType_text TEXT = ''TEXT''"
| "dataType_text LARGE_TEXT = ''LARGE_TEXT''"
| "dataType_text NUMERICAL = ''NUMERICAL''"
| "dataType_text PHONE = ''PHONE''"
| "dataType_text MONETORY = ''MONETORY''"
| "dataType_text CHECKBOX = ''CHECKBOX''"
| "dataType_text SINGLE_OPTIONS = ''SINGLE_OPTIONS''"
| "dataType_text MULTIPLE_OPTIONS = ''MULTIPLE_OPTIONS''"
| "dataType_text DATE = ''DATE''"
| "dataType_text FILE_UPLOAD = ''FILE_UPLOAD''"
| "dataType_text RADIO = ''RADIO''"
| "dataType_text EMAIL = ''EMAIL''"
| "dataType_text TEXTBOX_LIST = ''TEXTBOX_LIST''"

text \<open>One element of the bulk tool's \<^verbatim>\<open>fields\<close> array, as its schema types it.\<close>

record FieldDefinition =
  field_name :: string
  field_dataType :: DataType
  field_placeholder :: "string option"
  field_options :: "string list option"
  field_isRequired :: "bool option"
  field_model :: "string option"

text \<open>The object literal the loop passes to \<^verbatim>\<open>createLocationCustomField\<close>.\<close>

definition field_data :: "FieldDefinition \<Rightarrow> (string \<times> json) list" where
  "field_data field =
     props [(''name'', Some (JString (field_name field))),
            (''dataType'', Some (JString (dataType_text (field_dataType field)))),
            (''placeholder'', map_option JString (field_placeholder field)),
            (''options'', map_option (\<lambda>os. JArray (map JString os)) (field_options field)),
            (''isRequired'', map_option JBool (field_isRequired field)),
            (''model'', map_option JString (field_model field))]"

text \<open>
  The \<^verbatim>\<open>for (const field of fields)\<close> loop with its \<^verbatim>\<open>try\<close>/\<^verbatim>\<open>catch\<close>,
  pushing one object per field onto \<open>results\<close>. The second argument of
  \<^verbatim>\<open>createLocationCustomField\<close> is \<open>locationId\<close>: the handler's parameter in
  version 1.0.0 of the server, absent in version 2.0.0.
\<close>

fun bulk_loop ::
  "(HttpRequest \<Rightarrow> ('u, Response) io) \<Rightarrow> GHLClient \<Rightarrow> string option \<Rightarrow> FieldDefinition list
     \<Rightarrow> (string \<times> json) list list \<Rightarrow> 'u \<Rightarrow> (string \<times> json) list list \<times> 'u" where
  "bulk_loop fetch client locationId [] results u = (results, u)"
| "bulk_loop fetch client locationId (field # rest) results u =
     (case createLocationCustomField fetch client (field_data field) locationId u of
        (Inr result, u') \<Rightarrow>
          bulk_loop fetch client locationId rest
            (results @ [[(''name'', JString (field_name field)), (''success'', JBool True),
                         (''data'', result)]]) u'
      | (Inl message, u') \<Rightarrow>
          bulk_loop fetch client locationId rest
            (results @ [[(''name'', JString (field_name field)), (''success'', JBool False),
                         (''error'', JString message)]]) u')"

text \<open>\<^verbatim>\<open>r.success\<close>\<close>

definition success :: "(string \<times> json) list \<Rightarrow> bool" where
  "success r = (case map_of r ''success'' of Some v \<Rightarrow> json_truthy v | None \<Rightarrow> False)"

text \<open>Version 2.0.0 of the server: the resolver is awaited before the loop, outside any
  \<^verbatim>\<open>try\<close>.\<close>

definition ghl_bulk_create_contact_custom_fields ::
  "(HttpRequest \<Rightarrow> ('u, Response) io) \<Rightarrow> (json \<Rightarrow> string) \<Rightarrow> Env \<Rightarrow> FieldDefinition list
     \<Rightarrow> string option \<Rightarrow> 'u \<Rightarrow> (string + ToolResult) \<times> (D1Database \<times> 'u)" where
  "ghl_bulk_create_contact_custom_fields fetch stringify env fieldsArg locationId u =
     await (on_db (\<lambda>db. resolveClient (env\<lparr>GHL_DB := db\<rparr>) locationId)) (\<lambda>client.
     await (on_upstream (\<lambda>u. case bulk_loop fetch client None fieldsArg [] u of
                                (results, u') \<Rightarrow> (Inr results, u'))) (\<lambda>results.
       let successCount = length (filter success results);
           failCount = length (filter (\<lambda>r. \<not> success r) results)
       in resolve \<lparr>content = ''Bulk create: '' @ show_nat successCount @ '' succeeded, '' @
                              show_nat failCount @ '' failed.'' @ [nl, nl] @
                              stringify (JArray (map JObject results)),
                    isError = False\<rparr>))
     (GHL_DB env, u)"

text \<open>Version 1.0.0 of the server: no registry, one client from the environment.\<close>

definition createClient :: "Env \<Rightarrow> GHLClient" where
  "createClient env = \<lparr>this_apiKey = GHL_API_KEY env, this_locationId = GHL_LOCATION_ID env\<rparr>"

definition ghl_bulk_create_contact_custom_fields_v1 ::
  "(HttpRequest \<Rightarrow> ('u, Response) io) \<Rightarrow> (json \<Rightarrow> string) \<Rightarrow> Env \<Rightarrow> FieldDefinition list
     \<Rightarrow> string option \<Rightarrow> 'u \<Rightarrow> (string + ToolResult) \<times> 'u" where
  "ghl_bulk_create_contact_custom_fields_v1 fetch stringify env fieldsArg locationId u =
     (let client = createClient env
      in case bulk_loop fetch client locationId fieldsArg [] u of
           (results, u') \<Rightarrow>
             let successCount = length (filter success results);
                 failCount = length (filter (\<lambda>r. \<not> success r) results)
             in (Inr \<lparr>content = ''Bulk create complete: '' @ show_nat successCount @
                                  '' succeeded, '' @ show_nat failCount @ '' failed.'' @ [nl, nl] @
                                  stringify (JArray (map JObject results)),
                       isError = False\<rparr>, u'))"

section \<open>Notions the properties are stated with\<close>

text \<open>No statement of the schedule rejects: the registry service answers every query.\<close>

definition healthy :: "D1Database \<Rightarrow> bool" where
  "healthy db = list_all (\<lambda>f. f = None) (faults db)"

text \<open>The number of rows that hold the default flag, as the queries test it.\<close>

definition default_count :: "SubAccount list \<Rightarrow> nat" where
  "default_count rs = length (filter (\<lambda>a. is_default a = 1) rs)"

text \<open>A handler call succeeded: it returned, and without the error flag.\<close>

definition succeeded :: "(string + ToolResult) \<times> 's \<Rightarrow> bool" where
  "succeeded out = (case fst out of Inr r \<Rightarrow> \<not> isError r | Inl e \<Rightarrow> False)"

text \<open>
  The operations that touch the registry: the five account tools, and the resolver, which
  is all the other tools do to it. \<open>exec\<close> gives the registry after one operation,
  \<open>run_ops\<close> after a sequence, each operation starting where the previous one ended.
\<close>

datatype RegistryOp =
    AddSubAccount string string string string AccountType bool "string option"
  | ListSubAccounts
  | SetDefaultAccount string "string option" "string option"
  | RemoveSubAccount string
  | UpdateSubAccountToken string string string
  | ResolveClient "string option"

fun exec :: "(json \<Rightarrow> string) \<Rightarrow> (string \<Rightarrow> string) \<Rightarrow> Env \<Rightarrow> RegistryOp \<Rightarrow> D1Database" where
  "exec stringify d1_error env (AddSubAccount now locationId nameArg apiKey accountType isDefault notesArg) =
     snd (ghl_add_sub_account now env locationId nameArg apiKey accountType isDefault notesArg)"
| "exec stringify d1_error env ListSubAccounts = snd (ghl_list_sub_accounts stringify env)"
| "exec stringify d1_error env (SetDefaultAccount now locationId nameArg) =
     snd (ghl_set_default_account d1_error now env locationId nameArg)"
| "exec stringify d1_error env (RemoveSubAccount locationId) = snd (ghl_remove_sub_account env locationId)"
| "exec stringify d1_error env (UpdateSubAccountToken now locationId apiKey) =
     snd (ghl_update_sub_account_token now env locationId apiKey)"
| "exec stringify d1_error env (ResolveClient locationId) = snd (resolveClient env locationId)"

definition run_ops ::
  "(json \<Rightarrow> string) \<Rightarrow> (string \<Rightarrow> string) \<Rightarrow> Env \<Rightarrow> RegistryOp list \<Rightarrow> D1Database" where
  "run_ops stringify d1_error env ops =
     foldl (\<lambda>db op. exec stringify d1_error (env\<lparr>GHL_DB := db\<rparr>) op) (GHL_DB env) ops"



text \<open>
  What the upstream calls of a bulk creation give, one per field definition and in
  order, each call made in the state the previous one left: \<open>Inl\<close> is a failed call
  with its error message, \<open>Inr\<close> a successful one with the parsed body.
\<close>

fun item_outcomes ::
  "(HttpRequest \<Rightarrow> ('u, Response) io) \<Rightarrow> GHLClient \<Rightarrow> string option \<Rightarrow> FieldDefinition list
     \<Rightarrow> 'u \<Rightarrow> (string + json) list" where
  "item_outcomes fetch client locationId [] u = []"
| "item_outcomes fetch client locationId (field # rest) u =
     (case createLocationCustomField fetch client (field_data field) locationId u of
        (out, u') \<Rightarrow> out # item_outcomes fetch client locationId rest u')"

text \<open>The per-item record a bulk creation reports for a field and the outcome of its
  call.\<close>

fun item_record :: "FieldDefinition \<Rightarrow> string + json \<Rightarrow> (string \<times> json) list" where
  "item_record field (Inr result) =
     [(''name'', JString (field_name field)), (''success'', JBool True), (''data'', result)]"
| "item_record field (Inl message) =
     [(''name'', JString (field_name field)), (''success'', JBool False),
      (''error'', JString message)]"

subsection \<open>Sample data\<close>

definition acme :: SubAccount where
  "acme = \<lparr>id_sa = ''loc_123'', name = ''Acme'', api_key = ''pit-acme'',
           account_type = ''sub_account'', is_default = 1, notes_sa = None,
           created_at = ''2024-01-01 00:00:00'', updated_at = ''2024-01-01 00:00:00''\<rparr>"

definition smith :: SubAccount where
  "smith = \<lparr>id_sa = ''loc_456'', name = ''Dr. Smith Dental'', api_key = ''pit-smith'',
            account_type = ''sub_account'', is_default = 0, notes_sa = Some ''dental'',
            created_at = ''2024-01-02 00:00:00'', updated_at = ''2024-01-02 00:00:00''\<rparr>"

definition sample_env :: "SubAccount list \<Rightarrow> Env" where
  "sample_env rs = \<lparr>GHL_API_KEY = ''pit-env'', GHL_LOCATION_ID = ''loc_env'',
                     GHL_DB = \<lparr>rows = rs, faults = []\<rparr>\<rparr>"

text \<open>A wording of the errors of SQLite, as D1 is seen to give it.\<close>

definition sample_d1_error :: "string \<Rightarrow> string" where
  "sample_d1_error message = ''D1_ERROR: '' @ message @ '': SQLITE_ERROR''"

definition duplicate_key_response :: Response where
  \<open>duplicate_key_response =
     \<lparr>status = 422, statusText = ''Unprocessable Entity'',
      text_body = ''{"message":"duplicate fieldKey"}'',
      json_body = Inr (JObject [(''message'', JString ''duplicate fieldKey'')])\<rparr>\<close>

definition created_response :: Response where
  \<open>created_response =
     \<lparr>status = 201, statusText = ''Created'',
      text_body = ''{"customField":{"id":"cf_1"}}'',
      json_body = Inr (JObject [(''customField'', JObject [(''id'', JString ''cf_1'')])])\<rparr>\<close>

text \<open>A remote API that counts the calls it has answered and rejects the second one as a
  duplicate.\<close>

definition sample_fetch :: "HttpRequest \<Rightarrow> (nat, Response) io" where
  "sample_fetch req n =
     (Inr (if n = 1 then duplicate_key_response else created_response), Suc n)"

definition sample_field :: "string \<Rightarrow> FieldDefinition" where
  "sample_field n =
     \<lparr>field_name = n, field_dataType = TEXT, field_placeholder = None, field_options = None,
      field_isRequired = None, field_model = None\<rparr>"

section \<open>Basic facts\<close>

lemmas io_defs = try_catch_def await_def resolve_def initDb_def getAccountById_def
  getAccountByName_def d1_exec_fallible_def throw_def getDefaultAccount_def d1_exec_def

lemma list_all_tl: "list_all P fs \<Longrightarrow> list_all P (tl fs)"
  by (cases fs) auto

lemma d1_exec_healthy:
  "healthy db \<Longrightarrow>
   d1_exec q db = (Inr (fst (q (rows db))), \<lparr>rows = snd (q (rows db)), faults = tl (faults db)\<rparr>)"
  by (cases "faults db") (auto simp: healthy_def d1_exec_def split: option.splits)

lemma healthy_step: "healthy db \<Longrightarrow> healthy \<lparr>rows = rs, faults = tl (faults db)\<rparr>"
  by (cases "faults db") (auto simp: healthy_def)

lemma healthy_sample: "healthy (GHL_DB (sample_env rs))"
  by (simp add: healthy_def sample_env_def)

lemma find_by_id_distinct:
  "distinct (map id_sa rs) \<Longrightarrow> acc \<in> set rs \<Longrightarrow> find (\<lambda>a. id_sa a = id_sa acc) rs = Some acc"
  by (induction rs) (auto simp: image_iff)

lemma find_None_iff_all: "find P rs = None \<longleftrightarrow> (\<forall>a \<in> set rs. \<not> P a)"
  by (induction rs) auto

lemma find_Some_in: "find P rs = Some a \<Longrightarrow> a \<in> set rs \<and> P a"
  by (induction rs) (auto split: if_splits)

section \<open>The resolution order\<close>

lemma resolveClient_healthy:
  assumes "healthy (GHL_DB env)"
  shows "fst (resolveClient env locationId) = Inr
     (if truthy locationId then
        (case find (\<lambda>a. id_sa a = the locationId) (rows (GHL_DB env)) of
           Some acc \<Rightarrow> \<lparr>this_apiKey = api_key acc, this_locationId = id_sa acc\<rparr>
         | None \<Rightarrow> \<lparr>this_apiKey = GHL_API_KEY env, this_locationId = the locationId\<rparr>)
      else
        (case find (\<lambda>a. is_default a = 1) (rows (GHL_DB env)) of
           Some acc \<Rightarrow> \<lparr>this_apiKey = api_key acc, this_locationId = id_sa acc\<rparr>
         | None \<Rightarrow> \<lparr>this_apiKey = GHL_API_KEY env, this_locationId = GHL_LOCATION_ID env\<rparr>))"
  using assms
  by (simp add: resolveClient_def await_def resolve_def initDb_def getAccountById_def
      getDefaultAccount_def d1_exec_healthy healthy_step split: option.splits)

text \<open>
  C1, as the code has it. While the registry answers, and with the identifiers of the
  table distinct (its primary key), the resolver returns, first match first: for a
  non-empty identifier with a registration, that registration's credential and the
  identifier; for a non-empty identifier without one, the identifier with the fallback
  credential; for no identifier or the empty string, when some registration holds the
  default flag, the credential and identifier of the first such registration in table
  order; otherwise the fallback credential and the fallback tenant identifier.
\<close>

theorem resolveClient_order:
  assumes "healthy (GHL_DB env)" and "distinct (map id_sa (rows (GHL_DB env)))"
  shows
    "(\<forall>l acc. locationId = Some l \<and> l \<noteq> [] \<and> acc \<in> set (rows (GHL_DB env)) \<and> id_sa acc = l \<longrightarrow>
        fst (resolveClient env locationId) =
          Inr \<lparr>this_apiKey = api_key acc, this_locationId = l\<rparr>)
   \<and> (\<forall>l. locationId = Some l \<and> l \<noteq> [] \<and> (\<forall>a \<in> set (rows (GHL_DB env)). id_sa a \<noteq> l) \<longrightarrow>
        fst (resolveClient env locationId) =
          Inr \<lparr>this_apiKey = GHL_API_KEY env, this_locationId = l\<rparr>)
   \<and> ((locationId = None \<or> locationId = Some []) \<and>
        (\<exists>a \<in> set (rows (GHL_DB env)). is_default a = 1) \<longrightarrow>
        (\<exists>acc \<in> set (rows (GHL_DB env)). is_default acc = 1 \<and>
           find (\<lambda>a. is_default a = 1) (rows (GHL_DB env)) = Some acc \<and>
           fst (resolveClient env locationId) =
             Inr \<lparr>this_apiKey = api_key acc, this_locationId = id_sa acc\<rparr>))
   \<and> ((locationId = None \<or> locationId = Some []) \<and>
        (\<forall>a \<in> set (rows (GHL_DB env)). is_default a \<noteq> 1) \<longrightarrow>
        fst (resolveClient env locationId) =
          Inr \<lparr>this_apiKey = GHL_API_KEY env, this_locationId = GHL_LOCATION_ID env\<rparr>)"
proof (intro conjI allI impI)
  fix l acc
  assume h: "locationId = Some l \<and> l \<noteq> [] \<and> acc \<in> set (rows (GHL_DB env)) \<and> id_sa acc = l"
  then have "find (\<lambda>a. id_sa a = l) (rows (GHL_DB env)) = Some acc"
    using find_by_id_distinct [OF assms(2), of acc] by simp
  with h show "fst (resolveClient env locationId) =
      Inr \<lparr>this_apiKey = api_key acc, this_locationId = l\<rparr>"
    by (simp add: resolveClient_healthy [OF assms(1)] truthy_def)
next
  fix l
  assume h: "locationId = Some l \<and> l \<noteq> [] \<and> (\<forall>a \<in> set (rows (GHL_DB env)). id_sa a \<noteq> l)"
  then have "find (\<lambda>a. id_sa a = l) (rows (GHL_DB env)) = None"
    by (simp add: find_None_iff_all)
  with h show "fst (resolveClient env locationId) =
      Inr \<lparr>this_apiKey = GHL_API_KEY env, this_locationId = l\<rparr>"
    by (simp add: resolveClient_healthy [OF assms(1)] truthy_def)
next
  assume h: "(locationId = None \<or> locationId = Some []) \<and>
             (\<exists>a \<in> set (rows (GHL_DB env)). is_default a = 1)"
  then obtain acc where f: "find (\<lambda>a. is_default a = 1) (rows (GHL_DB env)) = Some acc"
    using find_None_iff_all [of "\<lambda>a. is_default a = 1" "rows (GHL_DB env)"] by fastforce
  from h have nt: "\<not> truthy locationId" by (auto simp: truthy_def)
  from f nt find_Some_in [OF f]
  show "\<exists>acc \<in> set (rows (GHL_DB env)). is_default acc = 1 \<and>
           find (\<lambda>a. is_default a = 1) (rows (GHL_DB env)) = Some acc \<and>
           fst (resolveClient env locationId) =
             Inr \<lparr>this_apiKey = api_key acc, this_locationId = id_sa acc\<rparr>"
    by (auto simp: resolveClient_healthy [OF assms(1)])
next
  assume h: "(locationId = None \<or> locationId = Some []) \<and>
             (\<forall>a \<in> set (rows (GHL_DB env)). is_default a \<noteq> 1)"
  then have "find (\<lambda>a. is_default a = 1) (rows (GHL_DB env)) = None"
    by (simp add: find_None_iff_all)
  moreover from h have "\<not> truthy locationId" by (auto simp: truthy_def)
  ultimately show "fst (resolveClient env locationId) =
      Inr \<lparr>this_apiKey = GHL_API_KEY env, this_locationId = GHL_LOCATION_ID env\<rparr>"
    by (simp add: resolveClient_healthy [OF assms(1)])
qed

theorem resolveClient_order_witness:
  "healthy (GHL_DB (sample_env [acme, smith]))
   \<and> distinct (map id_sa (rows (GHL_DB (sample_env [acme, smith]))))
   \<and> fst (resolveClient (sample_env [acme, smith]) (Some ''loc_456'')) =
       Inr \<lparr>this_apiKey = ''pit-smith'', this_locationId = ''loc_456''\<rparr>
   \<and> fst (resolveClient (sample_env [acme, smith]) (Some ''loc_789'')) =
       Inr \<lparr>this_apiKey = ''pit-env'', this_locationId = ''loc_789''\<rparr>
   \<and> fst (resolveClient (sample_env [smith]) None) =
       Inr \<lparr>this_apiKey = ''pit-env'', this_locationId = ''loc_env''\<rparr>"
proof -
  have d: "distinct (map id_sa (rows (GHL_DB (sample_env [acme, smith]))))"
    by (simp add: sample_env_def acme_def smith_def)
  have d': "distinct (map id_sa (rows (GHL_DB (sample_env [smith]))))"
    by (simp add: sample_env_def)
  have "fst (resolveClient (sample_env [acme, smith]) (Some ''loc_456'')) =
          Inr \<lparr>this_apiKey = api_key smith, this_locationId = ''loc_456''\<rparr>"
    by (rule resolveClient_order [OF healthy_sample d, of "Some ''loc_456''", THEN conjunct1,
          rule_format])
      (simp add: sample_env_def smith_def)
  moreover have "fst (resolveClient (sample_env [acme, smith]) (Some ''loc_789'')) =
          Inr \<lparr>this_apiKey = GHL_API_KEY (sample_env [acme, smith]),
               this_locationId = ''loc_789''\<rparr>"
    by (rule resolveClient_order [OF healthy_sample d, of "Some ''loc_789''", THEN conjunct2,
          THEN conjunct1, rule_format])
      (simp add: sample_env_def acme_def smith_def)
  moreover have "fst (resolveClient (sample_env [smith]) None) =
          Inr \<lparr>this_apiKey = GHL_API_KEY (sample_env [smith]),
               this_locationId = GHL_LOCATION_ID (sample_env [smith])\<rparr>"
    by (rule resolveClient_order [OF healthy_sample d', of None, THEN conjunct2, THEN conjunct2,
          THEN conjunct2, rule_format])
      (simp add: sample_env_def smith_def)
  ultimately show ?thesis
    using healthy_sample [of "[acme, smith]"] d by (simp add: sample_env_def smith_def)
qed

text \<open>
  The empty string is an identifier the tools' schemas accept. No registration has it
  here, and the resolver does not pair it with the fallback credential: it answers as if
  no identifier had been given.
\<close>

theorem resolveClient_empty_id_counterexample:
  "find (\<lambda>a. id_sa a = '''') (rows (GHL_DB (sample_env [smith]))) = None
   \<and> fst (resolveClient (sample_env [smith]) (Some '''')) =
       Inr \<lparr>this_apiKey = ''pit-env'', this_locationId = ''loc_env''\<rparr>
   \<and> fst (resolveClient (sample_env [smith]) (Some '''')) \<noteq>
       Inr \<lparr>this_apiKey = ''pit-env'', this_locationId = ''''\<rparr>"
  by (simp add: resolveClient_def await_def resolve_def initDb_def getAccountById_def
      getDefaultAccount_def d1_exec_def truthy_def sample_env_def smith_def)

section \<open>The default flag\<close>

subsection \<open>What the statements do to the identifiers and the flags\<close>

lemma ids_clear_defaults: "map id_sa (clear_defaults rs) = map id_sa rs"
  by (simp add: clear_defaults_def)

lemma count_clear_defaults: "default_count (clear_defaults rs) = 0"
  by (induction rs) (auto simp: default_count_def clear_defaults_def)

lemma count_filter_le: "default_count (filter P rs) \<le> default_count rs"
  by (induction rs) (auto simp: default_count_def)

lemma distinct_insert_or_replace:
  "distinct (map id_sa rs) \<Longrightarrow> distinct (map id_sa (insert_or_replace r rs))"
  by (auto simp: insert_or_replace_def distinct_map_filter)

lemma count_insert_or_replace:
  "default_count (insert_or_replace r rs) =
     default_count (filter (\<lambda>a. id_sa a \<noteq> id_sa r) rs) + (if is_default r = 1 then 1 else 0)"
  by (simp add: insert_or_replace_def default_count_def)

lemma ids_mark_default: "map id_sa (mark_default now i rs) = map id_sa rs"
  by (induction rs) (auto simp: mark_default_def)

lemma count_mark_cleared:
  "default_count (mark_default now i (clear_defaults rs)) = length (filter (\<lambda>a. id_sa a = i) rs)"
  by (induction rs) (auto simp: default_count_def mark_default_def clear_defaults_def)

lemma count_id_distinct:
  "distinct (map id_sa rs) \<Longrightarrow>
   length (filter (\<lambda>a. id_sa a = i) rs) = (if i \<in> id_sa ` set rs then 1 else 0)"
  by (induction rs) (auto simp: image_iff)

lemma distinct_delete_by_id:
  "distinct (map id_sa rs) \<Longrightarrow> distinct (map id_sa (delete_by_id i rs))"
  by (simp add: delete_by_id_def distinct_map_filter)

lemma ids_set_api_key: "map id_sa (set_api_key now k i rs) = map id_sa rs"
  by (induction rs) (auto simp: set_api_key_def)

lemma count_set_api_key: "default_count (set_api_key now k i rs) = default_count rs"
  by (induction rs) (auto simp: set_api_key_def default_count_def)

subsection \<open>The registry after each tool\<close>

lemma add_rows:
  "rows (snd (ghl_add_sub_account now env l n k t d nts)) \<in>
     {rows (GHL_DB env), clear_defaults (rows (GHL_DB env)),
      insert_or_replace \<lparr>id_sa = l, name = n, api_key = k, account_type = accountType_text t,
          is_default = (if d then 1 else 0), notes_sa = (if truthy nts then nts else None),
          created_at = now, updated_at = now\<rparr>
        (if d then clear_defaults (rows (GHL_DB env)) else rows (GHL_DB env))}"
  by (auto simp: ghl_add_sub_account_def io_defs split: list.splits option.splits)

lemma add_rows_succeeded:
  "succeeded (ghl_add_sub_account now env l n k t d nts) \<Longrightarrow>
   rows (snd (ghl_add_sub_account now env l n k t d nts)) =
      insert_or_replace \<lparr>id_sa = l, name = n, api_key = k, account_type = accountType_text t,
          is_default = (if d then 1 else 0), notes_sa = (if truthy nts then nts else None),
          created_at = now, updated_at = now\<rparr>
        (if d then clear_defaults (rows (GHL_DB env)) else rows (GHL_DB env))"
  by (auto simp: ghl_add_sub_account_def io_defs succeeded_def error_result_def
      split: list.splits option.splits)

lemma list_rows: "rows (snd (ghl_list_sub_accounts stringify env)) = rows (GHL_DB env)"
  by (auto simp: ghl_list_sub_accounts_def io_defs Let_def split: list.splits option.splits)

lemma resolve_rows: "rows (snd (resolveClient env locationId)) = rows (GHL_DB env)"
  by (auto simp: resolveClient_def io_defs split: list.splits option.splits)

lemma set_default_rows:
  "rows (snd (ghl_set_default_account d1_error now env locationId nameArg)) = rows (GHL_DB env)
   \<or> rows (snd (ghl_set_default_account d1_error now env locationId nameArg)) =
        clear_defaults (rows (GHL_DB env))
   \<or> (\<exists>acc \<in> set (rows (GHL_DB env)).
        rows (snd (ghl_set_default_account d1_error now env locationId nameArg)) =
          mark_default now (id_sa acc) (clear_defaults (rows (GHL_DB env))))"
  by (auto simp: ghl_set_default_account_def io_defs split: list.splits option.splits
      dest: find_Some_in)

lemma set_default_rows_succeeded:
  "succeeded (ghl_set_default_account d1_error now env locationId nameArg) \<Longrightarrow>
   \<exists>acc \<in> set (rows (GHL_DB env)).
      rows (snd (ghl_set_default_account d1_error now env locationId nameArg)) =
        mark_default now (id_sa acc) (clear_defaults (rows (GHL_DB env)))"
  by (auto simp: ghl_set_default_account_def io_defs succeeded_def error_result_def
      split: list.splits option.splits if_splits dest: find_Some_in)

lemma remove_rows:
  "rows (snd (ghl_remove_sub_account env l)) \<in>
     {rows (GHL_DB env), delete_by_id l (rows (GHL_DB env))}"
  by (auto simp: ghl_remove_sub_account_def io_defs split: list.splits option.splits)

lemma update_token_rows:
  "rows (snd (ghl_update_sub_account_token now env l k)) \<in>
     {rows (GHL_DB env), set_api_key now k l (rows (GHL_DB env))}"
  by (auto simp: ghl_update_sub_account_token_def io_defs split: list.splits option.splits)

subsection \<open>The invariant\<close>

lemma exec_invariant:
  assumes "distinct (map id_sa (rows (GHL_DB env)))" and "default_count (rows (GHL_DB env)) \<le> 1"
  shows "distinct (map id_sa (rows (exec stringify d1_error env op))) \<and>
         default_count (rows (exec stringify d1_error env op)) \<le> 1"
proof (cases op)
  case (AddSubAccount now l n k t d nts)
  let ?r = "\<lparr>id_sa = l, name = n, api_key = k, account_type = accountType_text t,
          is_default = (if d then 1 else 0), notes_sa = (if truthy nts then nts else None),
          created_at = now, updated_at = now\<rparr>"
  have "default_count (insert_or_replace ?r
          (if d then clear_defaults (rows (GHL_DB env)) else rows (GHL_DB env))) \<le> 1"
    using assms(2) count_filter_le [of "\<lambda>a. id_sa a \<noteq> l" "rows (GHL_DB env)"]
      count_filter_le [of "\<lambda>a. id_sa a \<noteq> l" "clear_defaults (rows (GHL_DB env))"]
    by (simp add: count_insert_or_replace count_clear_defaults)
  moreover have "distinct (map id_sa (insert_or_replace ?r
          (if d then clear_defaults (rows (GHL_DB env)) else rows (GHL_DB env))))"
    using assms(1) by (simp add: distinct_insert_or_replace ids_clear_defaults)
  ultimately show ?thesis
    using add_rows [of now env l n k t d nts] assms AddSubAccount
    by (auto simp: ids_clear_defaults count_clear_defaults)
next
  case ListSubAccounts
  with assms show ?thesis by (simp add: list_rows)
next
  case (SetDefaultAccount now locationId nameArg)
  have "default_count (mark_default now i (clear_defaults (rows (GHL_DB env)))) \<le> 1" for i
    using assms(1) by (simp add: count_mark_cleared count_id_distinct)
  with set_default_rows [of d1_error now env locationId nameArg] assms SetDefaultAccount
  show ?thesis
    by (auto simp: ids_clear_defaults count_clear_defaults ids_mark_default)
next
  case (RemoveSubAccount l)
  with remove_rows [of env l] assms count_filter_le [of "\<lambda>a. id_sa a \<noteq> l" "rows (GHL_DB env)"]
  show ?thesis
    by (auto simp: distinct_map_filter delete_by_id_def)
next
  case (UpdateSubAccountToken now l k)
  with update_token_rows [of now env l k] assms show ?thesis
    by (auto simp: ids_set_api_key count_set_api_key)
next
  case (ResolveClient locationId)
  with assms show ?thesis by (simp add: resolve_rows)
qed

lemma run_ops_snoc:
  "run_ops stringify d1_error env (ops @ [op]) =
     exec stringify d1_error (env\<lparr>GHL_DB := run_ops stringify d1_error env ops\<rparr>) op"
  by (simp add: run_ops_def)

lemma run_ops_invariant:
  assumes "distinct (map id_sa (rows (GHL_DB env)))" and "default_count (rows (GHL_DB env)) \<le> 1"
  shows "distinct (map id_sa (rows (run_ops stringify d1_error env ops))) \<and>
         default_count (rows (run_ops stringify d1_error env ops)) \<le> 1"
proof (induction ops rule: rev_induct)
  case Nil
  with assms show ?case by (simp add: run_ops_def)
next
  case (snoc op ops)
  then show ?case
    using exec_invariant [of "env\<lparr>GHL_DB := run_ops stringify d1_error env ops\<rparr>" stringify d1_error op]
    by (simp add: run_ops_snoc)
qed

lemma add_succeeds_healthy:
  assumes "healthy (GHL_DB env)"
  shows "succeeded (ghl_add_sub_account now env l n k t d nts)"
  using assms
  by (simp add: ghl_add_sub_account_def try_catch_def await_def resolve_def initDb_def
      d1_exec_healthy healthy_def list_all_tl succeeded_def)

text \<open>
  C2, as the code has it. Start from a registry whose identifiers are distinct (the
  primary key) and where at most one row holds the default flag. After any sequence of
  registry operations, run one after the other and whatever statements the service
  rejects on the way, at most one row holds the flag. From any such state, a registration
  with \<open>isDefault\<close> set succeeds when the service answers its statements; a
  registration with \<open>isDefault\<close> set that succeeds, and a set-default call that
  succeeds, leave exactly one row with the flag.
\<close>

theorem default_flag_invariant:
  assumes "distinct (map id_sa (rows (GHL_DB env)))" and "default_count (rows (GHL_DB env)) \<le> 1"
  shows
    "default_count (rows (run_ops stringify d1_error env ops)) \<le> 1
     \<and> (\<forall>now locationId nameArg apiKey accountType notesArg.
          healthy (run_ops stringify d1_error env ops) \<longrightarrow>
          succeeded (ghl_add_sub_account now (env\<lparr>GHL_DB := run_ops stringify d1_error env ops\<rparr>)
                       locationId nameArg apiKey accountType True notesArg) \<and>
          default_count (rows (snd (ghl_add_sub_account now
                       (env\<lparr>GHL_DB := run_ops stringify d1_error env ops\<rparr>)
                       locationId nameArg apiKey accountType True notesArg))) = 1)
     \<and> (\<forall>now locationId nameArg apiKey accountType notesArg.
          succeeded (ghl_add_sub_account now (env\<lparr>GHL_DB := run_ops stringify d1_error env ops\<rparr>)
                       locationId nameArg apiKey accountType True notesArg) \<longrightarrow>
          default_count (rows (snd (ghl_add_sub_account now
                       (env\<lparr>GHL_DB := run_ops stringify d1_error env ops\<rparr>)
                       locationId nameArg apiKey accountType True notesArg))) = 1)
     \<and> (\<forall>now locationId nameArg.
          succeeded (ghl_set_default_account d1_error now (env\<lparr>GHL_DB := run_ops stringify d1_error env ops\<rparr>)
                       locationId nameArg) \<longrightarrow>
          default_count (rows (snd (ghl_set_default_account d1_error now
                       (env\<lparr>GHL_DB := run_ops stringify d1_error env ops\<rparr>) locationId nameArg))) = 1)"
proof -
  let ?env = "env\<lparr>GHL_DB := run_ops stringify d1_error env ops\<rparr>"
  have one: "default_count (rows (snd (ghl_add_sub_account now ?env locationId nameArg apiKey
           accountType True notesArg))) = 1"
    if "succeeded (ghl_add_sub_account now ?env locationId nameArg apiKey accountType True notesArg)"
    for now locationId nameArg apiKey accountType notesArg
    using add_rows_succeeded [OF that]
      count_filter_le [of "\<lambda>a. id_sa a \<noteq> locationId"
        "clear_defaults (rows (run_ops stringify d1_error env ops))"]
    by (simp add: count_insert_or_replace count_clear_defaults)
  have ok: "succeeded (ghl_add_sub_account now ?env locationId nameArg apiKey accountType True notesArg)"
    if "healthy (run_ops stringify d1_error env ops)"
    for now locationId nameArg apiKey accountType notesArg
    using that by (intro add_succeeds_healthy) simp
  have set: "default_count (rows (snd (ghl_set_default_account d1_error now ?env locationId nameArg))) = 1"
    if "succeeded (ghl_set_default_account d1_error now ?env locationId nameArg)"
    for now locationId nameArg
  proof -
    from set_default_rows_succeeded [OF that]
    obtain acc where acc: "acc \<in> set (rows (run_ops stringify d1_error env ops))"
      and r: "rows (snd (ghl_set_default_account d1_error now ?env locationId nameArg)) =
                mark_default now (id_sa acc) (clear_defaults (rows (run_ops stringify d1_error env ops)))"
      by auto
    have "distinct (map id_sa (rows (run_ops stringify d1_error env ops)))"
      using run_ops_invariant [OF assms] by simp
    with acc r show ?thesis
      by (simp add: count_mark_cleared count_id_distinct)
  qed
  have "default_count (rows (run_ops stringify d1_error env ops)) \<le> 1"
    using run_ops_invariant [OF assms] by simp
  with one ok set show ?thesis
    by (intro conjI allI impI) blast+
qed

theorem default_flag_invariant_witness:
  "distinct (map id_sa (rows (GHL_DB (sample_env [acme, smith]))))
   \<and> default_count (rows (GHL_DB (sample_env [acme, smith]))) \<le> 1
   \<and> default_count (rows (run_ops (\<lambda>j. '''') sample_d1_error (sample_env [acme, smith])
         [RemoveSubAccount ''loc_123'', ListSubAccounts])) \<le> 1
   \<and> healthy (run_ops (\<lambda>j. '''') sample_d1_error (sample_env [acme, smith]) [])
   \<and> succeeded (ghl_add_sub_account ''2024-02-01 00:00:00'' (sample_env [acme, smith])
         ''loc_456'' ''Dr. Smith Dental'' ''pit-new'' Sub_account True None)
   \<and> default_count (rows (snd (ghl_add_sub_account ''2024-02-01 00:00:00''
         (sample_env [acme, smith]) ''loc_456'' ''Dr. Smith Dental'' ''pit-new'' Sub_account True
         None))) = 1
   \<and> succeeded (ghl_add_sub_account ''2024-02-01 00:00:00'' (sample_env [acme])
         ''loc_123'' ''Acme'' ''pit-new'' Agency True None)
   \<and> default_count (rows (snd (ghl_add_sub_account ''2024-02-01 00:00:00''
         (sample_env [acme]) ''loc_123'' ''Acme'' ''pit-new'' Agency True None))) = 1
   \<and> succeeded (ghl_set_default_account sample_d1_error ''2024-02-01 00:00:00'' (sample_env [acme, smith])
         None (Some ''smith''))
   \<and> default_count (rows (snd (ghl_set_default_account sample_d1_error ''2024-02-01 00:00:00''
         (sample_env [acme, smith]) None (Some ''smith'')))) = 1"
proof -
  have d: "distinct (map id_sa (rows (GHL_DB (sample_env [acme, smith]))))"
    by (simp add: sample_env_def acme_def smith_def)
  have c: "default_count (rows (GHL_DB (sample_env [acme, smith]))) \<le> 1"
    by (simp add: sample_env_def acme_def smith_def default_count_def)
  have d': "distinct (map id_sa (rows (GHL_DB (sample_env [acme]))))"
    by (simp add: sample_env_def)
  have c': "default_count (rows (GHL_DB (sample_env [acme]))) \<le> 1"
    by (simp add: sample_env_def default_count_def)
  have e: "(sample_env rs)\<lparr>GHL_DB := run_ops (\<lambda>j. '''') sample_d1_error (sample_env rs) []\<rparr> =
           sample_env rs" for rs
    by (simp add: run_ops_def)
  have h: "healthy (run_ops (\<lambda>j. '''') sample_d1_error (sample_env [acme, smith]) [])"
    by (simp add: run_ops_def healthy_sample)
  have s1: "succeeded (ghl_add_sub_account ''2024-02-01 00:00:00'' (sample_env [acme])
         ''loc_123'' ''Acme'' ''pit-new'' Agency True None)"
    by (simp add: ghl_add_sub_account_def io_defs succeeded_def sample_env_def)
  have s2: "succeeded (ghl_set_default_account sample_d1_error ''2024-02-01 00:00:00'' (sample_env [acme, smith])
         None (Some ''smith''))"
    by (simp add: ghl_set_default_account_def io_defs succeeded_def sample_env_def truthy_def
        acme_def smith_def LOWER_def lower_char_def LIKE_def c_string_def utf8_flush_def
        sqlite3Tolower_def sqlite3Toupper_def)
  note t = default_flag_invariant [OF d c, of "\<lambda>j. ''''" sample_d1_error]
  note t' = default_flag_invariant [OF d' c', of "\<lambda>j. ''''" sample_d1_error]
  have "default_count (rows (run_ops (\<lambda>j. '''') sample_d1_error (sample_env [acme, smith])
         [RemoveSubAccount ''loc_123'', ListSubAccounts])) \<le> 1"
    by (rule t [THEN conjunct1])
  moreover have "succeeded (ghl_add_sub_account ''2024-02-01 00:00:00'' (sample_env [acme, smith])
         ''loc_456'' ''Dr. Smith Dental'' ''pit-new'' Sub_account True None)
   \<and> default_count (rows (snd (ghl_add_sub_account ''2024-02-01 00:00:00''
         (sample_env [acme, smith]) ''loc_456'' ''Dr. Smith Dental'' ''pit-new'' Sub_account True
         None))) = 1"
    using t [of "[]", THEN conjunct2, THEN conjunct1, rule_format,
        of "''2024-02-01 00:00:00''" "''loc_456''" "''Dr. Smith Dental''" "''pit-new''"
          Sub_account None] h
    by (simp only: e)
  moreover have "default_count (rows (snd (ghl_add_sub_account ''2024-02-01 00:00:00''
         (sample_env [acme]) ''loc_123'' ''Acme'' ''pit-new'' Agency True None))) = 1"
    using t' [of "[]", THEN conjunct2, THEN conjunct2, THEN conjunct1, rule_format,
        of "''2024-02-01 00:00:00''" "''loc_123''" "''Acme''" "''pit-new''" Agency None] s1
    by (simp only: e)
  moreover have "default_count (rows (snd (ghl_set_default_account sample_d1_error ''2024-02-01 00:00:00''
         (sample_env [acme, smith]) None (Some ''smith'')))) = 1"
    using t [of "[]", THEN conjunct2, THEN conjunct2, THEN conjunct2, rule_format,
        of "''2024-02-01 00:00:00''" None "Some ''smith''"] s2
    by (simp only: e)
  ultimately show ?thesis
    using d c h s1 s2 by simp
qed

text \<open>
  A registration with \<open>isDefault\<close> set that does not succeed can leave no row with
  the flag. The handler clears every flag in one statement and inserts the flagged row in
  the next, with no transaction around the two: when the service answers the first and
  rejects the second, the handler reports the error and the only flag of the registry is
  gone.
\<close>

theorem default_flag_invariant_counterexample:
  "distinct (map id_sa [acme, smith])
   \<and> default_count [acme, smith] = 1
   \<and> fst (ghl_add_sub_account ''2024-02-01 00:00:00''
         ((sample_env [])\<lparr>GHL_DB := \<lparr>rows = [acme, smith],
            faults = [None, None, Some ''D1_ERROR: Network connection lost.'']\<rparr>\<rparr>)
         ''loc_456'' ''Dr. Smith Dental'' ''pit-new'' Sub_account True None) =
       Inr \<lparr>content = ''Error: D1_ERROR: Network connection lost.'', isError = True\<rparr>
   \<and> default_count (rows (snd (ghl_add_sub_account ''2024-02-01 00:00:00''
         ((sample_env [])\<lparr>GHL_DB := \<lparr>rows = [acme, smith],
            faults = [None, None, Some ''D1_ERROR: Network connection lost.'']\<rparr>\<rparr>)
         ''loc_456'' ''Dr. Smith Dental'' ''pit-new'' Sub_account True None))) = 0
   \<and> default_count (rows (run_ops (\<lambda>j. '''') sample_d1_error
         ((sample_env [])\<lparr>GHL_DB := \<lparr>rows = [acme, smith],
            faults = [None, None, Some ''D1_ERROR: Network connection lost.'']\<rparr>\<rparr>)
         [AddSubAccount ''2024-02-01 00:00:00'' ''loc_456'' ''Dr. Smith Dental'' ''pit-new''
            Sub_account True None])) = 0"
  by (simp add: ghl_add_sub_account_def io_defs error_result_def sample_env_def acme_def smith_def
      default_count_def clear_defaults_def run_ops_def)

section \<open>Removing an identifier that is not registered\<close>

text \<open>
  C6. A removal call whose identifier has no registration leaves the rows of the
  registry as they were and returns a response with the error flag; while the registry
  answers, that response is the not-found message.
\<close>

theorem remove_missing_account:
  assumes "\<forall>a \<in> set (rows (GHL_DB env)). id_sa a \<noteq> locationId"
  shows "rows (snd (ghl_remove_sub_account env locationId)) = rows (GHL_DB env)
         \<and> (\<exists>r. fst (ghl_remove_sub_account env locationId) = Inr r \<and> isError r)
         \<and> (healthy (GHL_DB env) \<longrightarrow>
              fst (ghl_remove_sub_account env locationId) =
                Inr \<lparr>content = ''Account not found.'', isError = True\<rparr>)"
proof -
  from assms have f: "find (\<lambda>a. id_sa a = locationId) (rows (GHL_DB env)) = None"
    by (simp add: find_None_iff_all)
  have "rows (snd (ghl_remove_sub_account env locationId)) = rows (GHL_DB env)"
    using f by (auto simp: ghl_remove_sub_account_def io_defs split: list.splits option.splits)
  moreover have "\<exists>r. fst (ghl_remove_sub_account env locationId) = Inr r \<and> isError r"
    using f
    by (auto simp: ghl_remove_sub_account_def io_defs error_result_def
        split: list.splits option.splits)
  moreover have "fst (ghl_remove_sub_account env locationId) =
                   Inr \<lparr>content = ''Account not found.'', isError = True\<rparr>"
    if "healthy (GHL_DB env)"
    using f that
    by (simp add: ghl_remove_sub_account_def try_catch_def await_def resolve_def initDb_def
        getAccountById_def d1_exec_healthy healthy_step)
  ultimately show ?thesis by blast
qed

theorem remove_missing_account_witness:
  "find (\<lambda>a. id_sa a = ''loc_789'') (rows (GHL_DB (sample_env [acme, smith]))) = None
   \<and> rows (snd (ghl_remove_sub_account (sample_env [acme, smith]) ''loc_789'')) = [acme, smith]
   \<and> fst (ghl_remove_sub_account (sample_env [acme, smith]) ''loc_789'') =
        Inr \<lparr>content = ''Account not found.'', isError = True\<rparr>"
proof -
  have h: "\<forall>a \<in> set (rows (GHL_DB (sample_env [acme, smith]))). id_sa a \<noteq> ''loc_789''"
    by (simp add: sample_env_def acme_def smith_def)
  from remove_missing_account [OF h] healthy_sample [of "[acme, smith]"]
  show ?thesis
    by (simp add: sample_env_def acme_def smith_def)
qed

section \<open>Rotating a token\<close>

lemma update_token_rows_succeeded:
  "succeeded (ghl_update_sub_account_token now env l k) \<Longrightarrow>
   (\<exists>acc \<in> set (rows (GHL_DB env)). id_sa acc = l) \<and>
   rows (snd (ghl_update_sub_account_token now env l k)) = set_api_key now k l (rows (GHL_DB env))"
  by (auto simp: ghl_update_sub_account_token_def io_defs succeeded_def error_result_def
      split: list.splits option.splits dest: find_Some_in)

lemma update_token_succeeds:
  "healthy (GHL_DB env) \<Longrightarrow> acc \<in> set (rows (GHL_DB env)) \<Longrightarrow> id_sa acc = l \<Longrightarrow>
   succeeded (ghl_update_sub_account_token now env l k)"
proof -
  assume h: "healthy (GHL_DB env)" and a: "acc \<in> set (rows (GHL_DB env))" "id_sa acc = l"
  then have "find (\<lambda>a. id_sa a = l) (rows (GHL_DB env)) \<noteq> None"
    by (auto simp: find_None_iff_all)
  then obtain b where "find (\<lambda>a. id_sa a = l) (rows (GHL_DB env)) = Some b" by blast
  with h show ?thesis
    by (simp add: ghl_update_sub_account_token_def try_catch_def await_def resolve_def initDb_def
        getAccountById_def d1_exec_healthy healthy_def list_all_tl succeeded_def)
qed

text \<open>
  C9. After a token rotation that succeeds, the registry has the same rows in the same
  order; every row keeps its identifier, name, account type, default flag, notes and
  creation time; the row of the given identifier has the new credential and the call's
  time as its update time; every other row is what it was.
\<close>

theorem token_rotation_frame:
  assumes "succeeded (ghl_update_sub_account_token now env locationId apiKey)"
  shows "length (rows (snd (ghl_update_sub_account_token now env locationId apiKey))) =
           length (rows (GHL_DB env))
     \<and> (\<forall>i < length (rows (GHL_DB env)).
          let a = rows (GHL_DB env) ! i;
              a' = rows (snd (ghl_update_sub_account_token now env locationId apiKey)) ! i
          in id_sa a' = id_sa a \<and> name a' = name a \<and> account_type a' = account_type a \<and>
             is_default a' = is_default a \<and> notes_sa a' = notes_sa a \<and>
             created_at a' = created_at a \<and>
             (id_sa a = locationId \<longrightarrow> api_key a' = apiKey \<and> updated_at a' = now) \<and>
             (id_sa a \<noteq> locationId \<longrightarrow> a' = a))"
  using update_token_rows_succeeded [OF assms]
  by (simp add: set_api_key_def Let_def)

theorem token_rotation_frame_witness:
  "succeeded (ghl_update_sub_account_token ''2024-03-01 00:00:00'' (sample_env [acme, smith])
      ''loc_456'' ''pit-rotated'')
   \<and> rows (snd (ghl_update_sub_account_token ''2024-03-01 00:00:00'' (sample_env [acme, smith])
      ''loc_456'' ''pit-rotated'')) ! 0 = acme
   \<and> rows (snd (ghl_update_sub_account_token ''2024-03-01 00:00:00'' (sample_env [acme, smith])
      ''loc_456'' ''pit-rotated'')) ! 1 =
       smith\<lparr>api_key := ''pit-rotated'', updated_at := ''2024-03-01 00:00:00''\<rparr>"
proof -
  have s: "succeeded (ghl_update_sub_account_token ''2024-03-01 00:00:00''
      (sample_env [acme, smith]) ''loc_456'' ''pit-rotated'')"
    by (rule update_token_succeeds [OF healthy_sample, of smith])
      (simp_all add: sample_env_def smith_def)
  note t = token_rotation_frame [OF s, THEN conjunct2, rule_format]
  have "rows (snd (ghl_update_sub_account_token ''2024-03-01 00:00:00'' (sample_env [acme, smith])
      ''loc_456'' ''pit-rotated'')) ! 0 = acme"
    using t [of 0] by (simp add: sample_env_def Let_def acme_def)
  moreover have "rows (snd (ghl_update_sub_account_token ''2024-03-01 00:00:00''
      (sample_env [acme, smith]) ''loc_456'' ''pit-rotated'')) ! 1 =
       smith\<lparr>api_key := ''pit-rotated'', updated_at := ''2024-03-01 00:00:00''\<rparr>"
    using t [of 1] by (simp add: sample_env_def Let_def smith_def) 
  ultimately show ?thesis using s by simp
qed

section \<open>The listing and the stored credentials\<close>

lemma insort_key_map_same:
  "(\<And>x. f (g x) = f x) \<Longrightarrow> insort_key f (g a) (map g xs) = map g (insort_key f a xs)"
  by (induction xs) auto

lemma sort_key_map_same:
  "(\<And>x. f (g x) = f x) \<Longrightarrow> sort_key f (map g xs) = map g (sort_key f xs)"
  by (induction xs) (simp_all add: insort_key_map_same)

lemma listing_masked:
  "map listed (sort_key name (map (\<lambda>a. a\<lparr>api_key := []\<rparr>) rs)) = map listed (sort_key name rs)"
proof -
  have "sort_key name (map (\<lambda>a. a\<lparr>api_key := []\<rparr>) rs) =
        map (\<lambda>a. a\<lparr>api_key := []\<rparr>) (sort_key name rs)"
    by (rule sort_key_map_same) simp
  then show ?thesis by (simp add: listed_def o_def)
qed

text \<open>
  C7. Two registry states whose rows differ in their \<open>api_key\<close> values only (and that
  face the same schedule of the service) give the same result of the list tool, for
  every serialiser: the output does not depend on a stored credential.
\<close>

theorem list_hides_api_keys:
  assumes "map (\<lambda>a. a\<lparr>api_key := []\<rparr>) (rows db) = map (\<lambda>a. a\<lparr>api_key := []\<rparr>) (rows db')"
    and "faults db = faults db'"
  shows "fst (ghl_list_sub_accounts stringify (env\<lparr>GHL_DB := db\<rparr>)) =
         fst (ghl_list_sub_accounts stringify (env\<lparr>GHL_DB := db'\<rparr>))"
proof -
  have "map listed (sort_key name (rows db)) = map listed (sort_key name (rows db'))"
    using listing_masked [of "rows db"] listing_masked [of "rows db'"] assms(1) by simp
  with assms(2) show ?thesis
    by (auto simp: ghl_list_sub_accounts_def io_defs Let_def split: list.splits option.splits)
qed

theorem list_hides_api_keys_witness:
  "map (\<lambda>a. a\<lparr>api_key := []\<rparr>) [acme, smith] =
     map (\<lambda>a. a\<lparr>api_key := []\<rparr>) [acme\<lparr>api_key := ''pit-other''\<rparr>, smith\<lparr>api_key := ''''\<rparr>]
   \<and> fst (ghl_list_sub_accounts (\<lambda>j. '''') (sample_env [acme, smith])) =
       fst (ghl_list_sub_accounts (\<lambda>j. '''')
              (sample_env [acme\<lparr>api_key := ''pit-other''\<rparr>, smith\<lparr>api_key := ''''\<rparr>]))"
proof -
  have m: "map (\<lambda>a. a\<lparr>api_key := []\<rparr>) (rows \<lparr>rows = [acme, smith], faults = []\<rparr>) =
     map (\<lambda>a. a\<lparr>api_key := []\<rparr>)
       (rows \<lparr>rows = [acme\<lparr>api_key := ''pit-other''\<rparr>, smith\<lparr>api_key := ''''\<rparr>], faults = []\<rparr>)"
    by simp
  have f: "faults \<lparr>rows = [acme, smith], faults = []\<rparr> =
           faults \<lparr>rows = [acme\<lparr>api_key := ''pit-other''\<rparr>, smith\<lparr>api_key := ''''\<rparr>], faults = []\<rparr>"
    by simp
  from list_hides_api_keys [OF m f, of "\<lambda>j. ''''" "sample_env []"] m
  show ?thesis by (simp add: sample_env_def)
qed

section \<open>Setting the default by name\<close>


lemma lower_char_idem: "lower_char (lower_char c) = lower_char c"
  by (auto simp: lower_char_def split: if_splits)























text \<open>
  A name of 49 bytes or more makes a pattern of more than 50: on a registry that answers
  and has a registration, the search is refused, whatever the names are. The handler
  reports the error and changes nothing.
\<close>

lemma set_default_long_name:
  assumes "healthy (GHL_DB env)" and "\<not> truthy locationId" and "48 < length s"
    and "rows (GHL_DB env) \<noteq> []"
  shows "fst (ghl_set_default_account d1_error now env locationId (Some s)) =
           Inr (error_result (d1_error ''LIKE or GLOB pattern too complex''))"
    and "rows (snd (ghl_set_default_account d1_error now env locationId (Some s))) = rows (GHL_DB env)"
proof -
  from assms(3) have "s \<noteq> []" by auto
  with assms show
    "fst (ghl_set_default_account d1_error now env locationId (Some s)) =
       Inr (error_result (d1_error ''LIKE or GLOB pattern too complex''))"
    "rows (snd (ghl_set_default_account d1_error now env locationId (Some s))) = rows (GHL_DB env)"
    by (simp_all add: ghl_set_default_account_def try_catch_def await_def resolve_def throw_def
        initDb_def getAccountByName_def d1_exec_fallible_def d1_exec_healthy healthy_def
        list_all_tl truthy_def LOWER_def)
qed







section \<open>The request primitive\<close>

text \<open>
  C5. Whenever \<^verbatim>\<open>fetch\<close> fulfils with a response to the request that
  \<^verbatim>\<open>request\<close> builds: if the status is not a success status, the call rejects with the
  message made of the decimal status code, the status text and the raw body text; if it
  is, the call settles to whatever \<^verbatim>\<open>resp.json()\<close> gives, with no check of its shape.
\<close>

theorem request_status_contract:
  assumes "fetch \<lparr>req_url = baseUrl @ path,
                  req_searchParams = (case query opts of Some q \<Rightarrow> q | None \<Rightarrow> []),
                  req_method = method,
                  req_headers = headers this (version opts),
                  req_body = (case body opts of
                                Some b \<Rightarrow> if json_truthy b then Some b else None
                              | None \<Rightarrow> None)\<rparr> u = (Inr resp, u')"
  shows "request fetch this method path opts u =
           (if ok resp then json_body resp
            else Inl (''GHL API Error '' @ show_nat (status resp) @ '': '' @ statusText resp @
                      '' - '' @ text_body resp), u')"
  using assms by (simp add: request_def await_def throw_def)

lemma show_nat_422: "show_nat 422 = ''422''"
  by (simp add: show_nat.simps digit_def)

text \<open>
  The example of the specification: a 422 whose body is
  \<^verbatim>\<open>{"message":"duplicate fieldKey"}\<close>, first at the primitive, then as the error
  response of a tool.
\<close>

theorem request_status_contract_witness:
  \<open>request (\<lambda>req. resolve duplicate_key_response) \<lparr>this_apiKey = ''pit-env'', this_locationId = ''loc_env''\<rparr>
      ''POST'' ''/locations/loc_env/customFields''
      \<lparr>body = Some (JObject [(''name'', JString ''Budget'')]), query = None,
       version = Some ''2021-07-28''\<rparr> () =
     (Inl ''GHL API Error 422: Unprocessable Entity - {"message":"duplicate fieldKey"}'', ())
   \<and> fst (ghl_list_contact_custom_fields (\<lambda>req. resolve duplicate_key_response) (\<lambda>j. '''')
          (sample_env [acme, smith]) None ()) =
       Inr \<lparr>content = ''Error: GHL API Error 422: Unprocessable Entity - {"message":"duplicate fieldKey"}'',
            isError = True\<rparr>\<close>
proof -
  have "request (\<lambda>req. resolve duplicate_key_response)
      \<lparr>this_apiKey = ''pit-env'', this_locationId = ''loc_env''\<rparr>
      ''POST'' ''/locations/loc_env/customFields''
      \<lparr>body = Some (JObject [(''name'', JString ''Budget'')]), query = None,
       version = Some ''2021-07-28''\<rparr> () =
     (if ok duplicate_key_response then json_body duplicate_key_response
      else Inl (''GHL API Error '' @ show_nat (status duplicate_key_response) @ '': '' @
                statusText duplicate_key_response @ '' - '' @ text_body duplicate_key_response),
      ())"
    by (rule request_status_contract) (simp add: resolve_def)
  then have a: \<open>request (\<lambda>req. resolve duplicate_key_response)
      \<lparr>this_apiKey = ''pit-env'', this_locationId = ''loc_env''\<rparr>
      ''POST'' ''/locations/loc_env/customFields''
      \<lparr>body = Some (JObject [(''name'', JString ''Budget'')]), query = None,
       version = Some ''2021-07-28''\<rparr> () =
     (Inl ''GHL API Error 422: Unprocessable Entity - {"message":"duplicate fieldKey"}'', ())\<close>
    by (simp add: ok_def duplicate_key_response_def show_nat_422)
  have b: \<open>fst (ghl_list_contact_custom_fields (\<lambda>req. resolve duplicate_key_response) (\<lambda>j. '''')
          (sample_env [acme, smith]) None ()) =
       Inr \<lparr>content = ''Error: GHL API Error 422: Unprocessable Entity - {"message":"duplicate fieldKey"}'',
            isError = True\<rparr>\<close>
    by (simp add: ghl_list_contact_custom_fields_def resolveClient_def io_defs on_db_def
        on_upstream_def getLocationCustomFields_def request_def throw_def ok_def
        duplicate_key_response_def show_nat_422 error_result_def sample_env_def truthy_def
        acme_def or_else_def)
  from a b show ?thesis ..
qed

section \<open>Bulk creation\<close>

lemma length_item_outcomes:
  "length (item_outcomes fetch client loc fs u) = length fs"
  by (induction fs arbitrary: u) (auto split: prod.splits)

lemma bulk_loop_outcomes:
  "fst (bulk_loop fetch client loc fs results u) =
     results @ map2 item_record fs (item_outcomes fetch client loc fs u)"
  by (induction fs arbitrary: results u) (auto split: prod.splits sum.splits)

lemma success_item_record: "success (item_record f out) = (\<not> isl out)"
  by (cases out) (simp_all add: success_def)

lemma count_success:
  "length fs = length outs \<Longrightarrow>
   length (filter success (map2 item_record fs outs)) = length fs - length (filter isl outs) \<and>
   length (filter (\<lambda>r. \<not> success r) (map2 item_record fs outs)) = length (filter isl outs)"
proof (induction fs outs rule: list_induct2)
  case Nil
  then show ?case by simp
next
  case (Cons f fs out outs)
  have "length (filter isl outs) \<le> length fs"
    using Cons.hyps by (metis length_filter_le)
  with Cons.IH show ?case
    by (simp add: success_item_record Suc_diff_le)
qed


text \<open>
  C4. Let \<open>outs\<close> be the outcomes of the upstream calls for the \<open>N\<close> field definitions,
  made one after the other, and \<open>M\<close> the number of failed ones. There are \<open>N\<close>
  outcomes (no call is skipped after a failure); the response, which the handler returns
  once its client is resolved, reports \<open>N - M\<close> successes and \<open>M\<close> failures, followed by
  the per-item records in the order of the fields; and the record of a failed item holds
  its error message unchanged. The same holds for the handler of version 1.0.0, which
  needs no resolution.
\<close>

theorem bulk_create_report:
  assumes "fst (resolveClient env locationId) = Inr client"
  shows
    "(let outs = item_outcomes fetch client None fieldsArg u;
          M = length (filter isl outs);
          results = map2 item_record fieldsArg outs
      in length outs = length fieldsArg
       \<and> fst (ghl_bulk_create_contact_custom_fields fetch stringify env fieldsArg locationId u) =
           Inr \<lparr>content = ''Bulk create: '' @ show_nat (length fieldsArg - M) @ '' succeeded, '' @
                          show_nat M @ '' failed.'' @ [nl, nl] @
                          stringify (JArray (map JObject results)),
                isError = False\<rparr>
       \<and> (\<forall>i < length fieldsArg. \<forall>message. outs ! i = Inl message \<longrightarrow>
             results ! i = [(''name'', JString (field_name (fieldsArg ! i))),
                            (''success'', JBool False), (''error'', JString message)]))
   \<and> (let outs = item_outcomes fetch (createClient env) locationId fieldsArg u;
          M = length (filter isl outs);
          results = map2 item_record fieldsArg outs
      in length outs = length fieldsArg
       \<and> fst (ghl_bulk_create_contact_custom_fields_v1 fetch stringify env fieldsArg locationId u) =
           Inr \<lparr>content = ''Bulk create complete: '' @ show_nat (length fieldsArg - M) @
                          '' succeeded, '' @ show_nat M @ '' failed.'' @ [nl, nl] @
                          stringify (JArray (map JObject results)),
                isError = False\<rparr>
       \<and> (\<forall>i < length fieldsArg. \<forall>message. outs ! i = Inl message \<longrightarrow>
             results ! i = [(''name'', JString (field_name (fieldsArg ! i))),
                            (''success'', JBool False), (''error'', JString message)]))"
proof -
  have rec: "map2 item_record fieldsArg outs ! i =
        [(''name'', JString (field_name (fieldsArg ! i))), (''success'', JBool False),
         (''error'', JString message)]"
    if "length outs = length fieldsArg" "i < length fieldsArg" "outs ! i = Inl message"
    for outs :: "(string + json) list" and i message
    using that by simp
  have v2: "fst (ghl_bulk_create_contact_custom_fields fetch stringify env fieldsArg locationId u) =
      Inr \<lparr>content = ''Bulk create: '' @
          show_nat (length fieldsArg -
            length (filter isl (item_outcomes fetch client None fieldsArg u))) @
          '' succeeded, '' @
          show_nat (length (filter isl (item_outcomes fetch client None fieldsArg u))) @
          '' failed.'' @ [nl, nl] @
          stringify (JArray (map JObject
            (map2 item_record fieldsArg (item_outcomes fetch client None fieldsArg u)))),
        isError = False\<rparr>"
  proof -
    obtain db' where r: "resolveClient env locationId = (Inr client, db')"
      using assms by (cases "resolveClient env locationId") simp
    obtain results u' where l: "bulk_loop fetch client None fieldsArg [] u = (results, u')"
      by (cases "bulk_loop fetch client None fieldsArg [] u")
    have res: "results = map2 item_record fieldsArg (item_outcomes fetch client None fieldsArg u)"
      using bulk_loop_outcomes [of fetch client None fieldsArg "[]" u] l by simp
    show ?thesis
      using count_success [of fieldsArg "item_outcomes fetch client None fieldsArg u"]
      by (simp add: ghl_bulk_create_contact_custom_fields_def await_def on_db_def on_upstream_def
          resolve_def r l Let_def res length_item_outcomes)
  qed
  have v1: "fst (ghl_bulk_create_contact_custom_fields_v1 fetch stringify env fieldsArg locationId u) =
      Inr \<lparr>content = ''Bulk create complete: '' @
          show_nat (length fieldsArg -
            length (filter isl (item_outcomes fetch (createClient env) locationId fieldsArg u))) @
          '' succeeded, '' @
          show_nat (length (filter isl
            (item_outcomes fetch (createClient env) locationId fieldsArg u))) @
          '' failed.'' @ [nl, nl] @
          stringify (JArray (map JObject
            (map2 item_record fieldsArg
              (item_outcomes fetch (createClient env) locationId fieldsArg u)))),
        isError = False\<rparr>"
  proof -
    obtain results u' where
      l: "bulk_loop fetch (createClient env) locationId fieldsArg [] u = (results, u')"
      by (cases "bulk_loop fetch (createClient env) locationId fieldsArg [] u")
    have res: "results =
        map2 item_record fieldsArg (item_outcomes fetch (createClient env) locationId fieldsArg u)"
      using bulk_loop_outcomes [of fetch "createClient env" locationId fieldsArg "[]" u] l by simp
    show ?thesis
      using count_success [of fieldsArg
          "item_outcomes fetch (createClient env) locationId fieldsArg u"]
      by (simp add: ghl_bulk_create_contact_custom_fields_v1_def l Let_def res
          length_item_outcomes)
  qed
  show ?thesis
    unfolding Let_def
    using v1 v2 rec [OF length_item_outcomes] by (intro conjI allI impI) (simp_all add: length_item_outcomes)
qed


lemma show_nat_small:
  "show_nat 0 = ''0''" "show_nat (Suc 0) = ''1''" "show_nat (Suc (Suc 0)) = ''2''"
  by (simp_all add: show_nat.simps digit_def)

theorem bulk_create_report_witness:
  \<open>fst (resolveClient (sample_env [acme, smith]) None) =
      Inr \<lparr>this_apiKey = ''pit-acme'', this_locationId = ''loc_123''\<rparr>
   \<and> item_outcomes sample_fetch \<lparr>this_apiKey = ''pit-acme'', this_locationId = ''loc_123''\<rparr> None
        [sample_field ''Budget'', sample_field ''Region'', sample_field ''Tier''] 0 =
      [Inr (JObject [(''customField'', JObject [(''id'', JString ''cf_1'')])]),
       Inl ''GHL API Error 422: Unprocessable Entity - {"message":"duplicate fieldKey"}'',
       Inr (JObject [(''customField'', JObject [(''id'', JString ''cf_1'')])])]
   \<and> fst (ghl_bulk_create_contact_custom_fields sample_fetch (\<lambda>j. '''') (sample_env [acme, smith])
          [sample_field ''Budget'', sample_field ''Region'', sample_field ''Tier''] None 0) =
      Inr \<lparr>content = ''Bulk create: 2 succeeded, 1 failed.'' @ [nl, nl], isError = False\<rparr>
   \<and> map2 item_record [sample_field ''Budget'', sample_field ''Region'', sample_field ''Tier'']
        (item_outcomes sample_fetch \<lparr>this_apiKey = ''pit-acme'', this_locationId = ''loc_123''\<rparr> None
          [sample_field ''Budget'', sample_field ''Region'', sample_field ''Tier''] 0) ! 1 =
      [(''name'', JString ''Region''), (''success'', JBool False),
       (''error'', JString ''GHL API Error 422: Unprocessable Entity - {"message":"duplicate fieldKey"}'')]\<close>
proof -
  let ?c = "\<lparr>this_apiKey = ''pit-acme'', this_locationId = ''loc_123''\<rparr>"
  let ?fs = "[sample_field ''Budget'', sample_field ''Region'', sample_field ''Tier'']"
  have r: "fst (resolveClient (sample_env [acme, smith]) None) = Inr ?c"
    by (subst resolveClient_healthy [OF healthy_sample])
      (simp add: truthy_def sample_env_def acme_def)
  have o: \<open>item_outcomes sample_fetch ?c None ?fs 0 =
      [Inr (JObject [(''customField'', JObject [(''id'', JString ''cf_1'')])]),
       Inl ''GHL API Error 422: Unprocessable Entity - {"message":"duplicate fieldKey"}'',
       Inr (JObject [(''customField'', JObject [(''id'', JString ''cf_1'')])])]\<close>
    by (simp add: createLocationCustomField_def request_def await_def throw_def sample_fetch_def
        ok_def created_response_def duplicate_key_response_def show_nat_422 Let_def)
  note t = bulk_create_report [OF r, of sample_fetch ?fs 0 "\<lambda>j. ''''", THEN conjunct1,
      unfolded Let_def o]
  have m: "length (filter isl (item_outcomes sample_fetch ?c None ?fs 0)) = 1"
    unfolding o by simp
  have "fst (ghl_bulk_create_contact_custom_fields sample_fetch (\<lambda>j. '''') (sample_env [acme, smith])
          ?fs None 0) =
      Inr \<lparr>content = ''Bulk create: 2 succeeded, 1 failed.'' @ [nl, nl], isError = False\<rparr>"
    using t [THEN conjunct2, THEN conjunct1] m [unfolded o]
    by (simp add: show_nat_small)
  moreover have \<open>map2 item_record ?fs (item_outcomes sample_fetch ?c None ?fs 0) ! 1 =
      [(''name'', JString ''Region''), (''success'', JBool False),
       (''error'', JString ''GHL API Error 422: Unprocessable Entity - {"message":"duplicate fieldKey"}'')]\<close>
    using t [THEN conjunct2, THEN conjunct2, rule_format, of 1
        \<open>''GHL API Error 422: Unprocessable Entity - {"message":"duplicate fieldKey"}''\<close>]
    unfolding o by (simp add: sample_field_def)
  ultimately show ?thesis
    using r o by simp
qed

section \<open>Failures that escape a handler\<close>

lemma try_catch_returns:
  "\<exists>r. fst (try_catch m (\<lambda>e. resolve (error_result e)) s) = Inr r"
  by (cases "m s") (auto simp: try_catch_def resolve_def split: sum.splits)

text \<open>The handlers whose whole body is inside \<^verbatim>\<open>try\<close> return a response whatever
  fails.\<close>

lemma handlers_with_try_return:
  "\<exists>r. fst (ghl_add_sub_account now env locationId nameArg apiKey accountType isDefault notesArg) = Inr r"
  "\<exists>r. fst (ghl_list_sub_accounts stringify env) = Inr r"
  "\<exists>r. fst (ghl_set_default_account d1_error now env locationId' nameArg') = Inr r"
  "\<exists>r. fst (ghl_remove_sub_account env locationId) = Inr r"
  "\<exists>r. fst (ghl_update_sub_account_token now env locationId apiKey) = Inr r"
  "\<exists>r. fst (ghl_list_contact_custom_fields fetch stringify env locationId' u) = Inr r"
  unfolding ghl_add_sub_account_def ghl_list_sub_accounts_def ghl_set_default_account_def
    ghl_remove_sub_account_def ghl_update_sub_account_token_def
    ghl_list_contact_custom_fields_def
  by (rule try_catch_returns)+

lemma bulk_create_rejects:
  "fst (ghl_bulk_create_contact_custom_fields fetch stringify
          (env\<lparr>GHL_DB := \<lparr>rows = rs, faults = Some message # fs\<rparr>\<rparr>) fieldsArg locationId u) =
     Inl message"
  by (simp add: ghl_bulk_create_contact_custom_fields_def resolveClient_def await_def on_db_def
      initDb_def d1_exec_def)

lemma list_contact_custom_fields_catches:
  "fst (ghl_list_contact_custom_fields fetch stringify
          (env\<lparr>GHL_DB := \<lparr>rows = rs, faults = Some message # fs\<rparr>\<rparr>) locationId u) =
     Inr (error_result message)"
  by (simp add: ghl_list_contact_custom_fields_def resolveClient_def await_def on_db_def
      initDb_def d1_exec_def try_catch_def resolve_def)

text \<open>
  C3 fails for the bulk tool of version 2.0.0. The registry rejects the first statement
  of the resolver: the bulk handler, which awaits the resolver outside any
  \<^verbatim>\<open>try\<close>, rejects with that failure, where the list tool (like every other handler)
  returns an error response.
\<close>

theorem bulk_create_uncaught_registry_failure:
  "fst (ghl_bulk_create_contact_custom_fields sample_fetch (\<lambda>j. '''')
          \<lparr>GHL_API_KEY = ''pit-env'', GHL_LOCATION_ID = ''loc_env'',
           GHL_DB = \<lparr>rows = [acme, smith], faults = [Some ''D1_ERROR: Network connection lost.'']\<rparr>\<rparr>
          [sample_field ''Budget''] None 0) =
     Inl ''D1_ERROR: Network connection lost.''
   \<and> fst (ghl_list_contact_custom_fields sample_fetch (\<lambda>j. '''')
          \<lparr>GHL_API_KEY = ''pit-env'', GHL_LOCATION_ID = ''loc_env'',
           GHL_DB = \<lparr>rows = [acme, smith], faults = [Some ''D1_ERROR: Network connection lost.'']\<rparr>\<rparr>
          None 0) =
     Inr \<lparr>content = ''Error: D1_ERROR: Network connection lost.'', isError = True\<rparr>"
  by (simp add: ghl_bulk_create_contact_custom_fields_def ghl_list_contact_custom_fields_def
      resolveClient_def await_def on_db_def initDb_def d1_exec_def try_catch_def resolve_def
      error_result_def)

section \<open>The empty string as a tenant identifier\<close>

lemmas facade_defs = getCustomFieldsByObjectKey_def deleteCustomFieldFolder_def
  getLocationCustomFields_def getLocationCustomField_def createLocationCustomField_def
  updateLocationCustomField_def deleteLocationCustomField_def getCustomValues_def
  getCustomValue_def createCustomValue_def updateCustomValue_def deleteCustomValue_def
  createCustomField_def updateCustomField_def createCustomFieldFolder_def
  updateCustomFieldFolder_def

text \<open>
  C10. The resolver called with the empty string does what it does with no identifier.
  Every facade method that takes a \<open>locationId\<close> parameter does with the empty string
  what it does without one, namely send its request for the location the client was
  built with; the four methods that take the identifier inside \<open>data\<close> put the client's
  location into the body when \<open>data\<close> has the empty string there.
\<close>

theorem empty_locationId_is_omitted:
  "resolveClient env (Some '''') = resolveClient env None
   \<and> (map_of data ''locationId'' = Some (JString '''') \<longrightarrow>
        createCustomField fetch this data =
          request fetch this ''POST'' ''/custom-fields/''
            \<lparr>body = Some (JObject (set_prop ''locationId'' (JString (this_locationId this)) data)),
             query = None, version = Some ''2021-07-28''\<rparr> \<and>
        updateCustomField fetch this i data =
          request fetch this ''PUT'' (''/custom-fields/'' @ i)
            \<lparr>body = Some (JObject (set_prop ''locationId'' (JString (this_locationId this)) data)),
             query = None, version = Some ''2021-07-28''\<rparr> \<and>
        createCustomFieldFolder fetch this data =
          request fetch this ''POST'' ''/custom-fields/folder''
            \<lparr>body = Some (JObject (set_prop ''locationId'' (JString (this_locationId this)) data)),
             query = None, version = Some ''2021-07-28''\<rparr> \<and>
        updateCustomFieldFolder fetch this i data =
          request fetch this ''PUT'' (''/custom-fields/folder/'' @ i)
            \<lparr>body = Some (JObject (set_prop ''locationId'' (JString (this_locationId this)) data)),
             query = None, version = Some ''2021-07-28''\<rparr>)
   \<and> getCustomFieldsByObjectKey fetch this objectKey (Some '''') =
       getCustomFieldsByObjectKey fetch this objectKey None
   \<and> getCustomFieldsByObjectKey fetch this objectKey (Some '''') =
       request fetch this ''GET'' (''/custom-fields/object-key/'' @ objectKey)
         \<lparr>body = None, query = Some [(''locationId'', this_locationId this)],
          version = Some ''2021-07-28''\<rparr>
   \<and> deleteCustomFieldFolder fetch this i (Some '''') = deleteCustomFieldFolder fetch this i None
   \<and> deleteCustomFieldFolder fetch this i (Some '''') =
       request fetch this ''DELETE'' (''/custom-fields/folder/'' @ i)
         \<lparr>body = None, query = Some [(''locationId'', this_locationId this)],
          version = Some ''2021-07-28''\<rparr>
   \<and> getLocationCustomFields fetch this (Some '''') = getLocationCustomFields fetch this None
   \<and> getLocationCustomFields fetch this (Some '''') =
       request fetch this ''GET'' (''/locations/'' @ this_locationId this @ ''/customFields'')
         \<lparr>body = None, query = None, version = Some ''2021-07-28''\<rparr>
   \<and> getLocationCustomField fetch this fieldId (Some '''') =
       getLocationCustomField fetch this fieldId None
   \<and> getLocationCustomField fetch this fieldId (Some '''') =
       request fetch this ''GET''
         (''/locations/'' @ this_locationId this @ ''/customFields/'' @ fieldId)
         \<lparr>body = None, query = None, version = Some ''2021-07-28''\<rparr>
   \<and> createLocationCustomField fetch this data (Some '''') =
       createLocationCustomField fetch this data None
   \<and> createLocationCustomField fetch this data (Some '''') =
       request fetch this ''POST'' (''/locations/'' @ this_locationId this @ ''/customFields'')
         \<lparr>body = Some (JObject data), query = None, version = Some ''2021-07-28''\<rparr>
   \<and> updateLocationCustomField fetch this fieldId data (Some '''') =
       updateLocationCustomField fetch this fieldId data None
   \<and> updateLocationCustomField fetch this fieldId data (Some '''') =
       request fetch this ''PUT''
         (''/locations/'' @ this_locationId this @ ''/customFields/'' @ fieldId)
         \<lparr>body = Some (JObject data), query = None, version = Some ''2021-07-28''\<rparr>
   \<and> deleteLocationCustomField fetch this fieldId (Some '''') =
       deleteLocationCustomField fetch this fieldId None
   \<and> deleteLocationCustomField fetch this fieldId (Some '''') =
       request fetch this ''DELETE''
         (''/locations/'' @ this_locationId this @ ''/customFields/'' @ fieldId)
         \<lparr>body = None, query = None, version = Some ''2021-07-28''\<rparr>
   \<and> getCustomValues fetch this (Some '''') = getCustomValues fetch this None
   \<and> getCustomValues fetch this (Some '''') =
       request fetch this ''GET'' (''/locations/'' @ this_locationId this @ ''/customValues'')
         \<lparr>body = None, query = None, version = Some ''2021-07-28''\<rparr>
   \<and> getCustomValue fetch this valueId (Some '''') = getCustomValue fetch this valueId None
   \<and> getCustomValue fetch this valueId (Some '''') =
       request fetch this ''GET''
         (''/locations/'' @ this_locationId this @ ''/customValues/'' @ valueId)
         \<lparr>body = None, query = None, version = Some ''2021-07-28''\<rparr>
   \<and> createCustomValue fetch this data (Some '''') = createCustomValue fetch this data None
   \<and> createCustomValue fetch this data (Some '''') =
       request fetch this ''POST'' (''/locations/'' @ this_locationId this @ ''/customValues'')
         \<lparr>body = Some (JObject data), query = None, version = Some ''2021-07-28''\<rparr>
   \<and> updateCustomValue fetch this valueId data (Some '''') =
       updateCustomValue fetch this valueId data None
   \<and> updateCustomValue fetch this valueId data (Some '''') =
       request fetch this ''PUT''
         (''/locations/'' @ this_locationId this @ ''/customValues/'' @ valueId)
         \<lparr>body = Some (JObject data), query = None, version = Some ''2021-07-28''\<rparr>
   \<and> deleteCustomValue fetch this valueId (Some '''') = deleteCustomValue fetch this valueId None
   \<and> deleteCustomValue fetch this valueId (Some '''') =
       request fetch this ''DELETE''
         (''/locations/'' @ this_locationId this @ ''/customValues/'' @ valueId)
         \<lparr>body = None, query = None, version = Some ''2021-07-28''\<rparr>"
  by (simp add: facade_defs or_else_def with_locationId_def resolveClient_def truthy_def)

lemma map_of_set_prop: "map_of (set_prop k v kvs) k = Some v"
  by (induction kvs) auto

theorem empty_locationId_is_omitted_witness:
  "map_of [(''objectKey'', JString ''custom_objects.pet''), (''name'', JString ''Vaccines''),
           (''locationId'', JString '''')] ''locationId'' = Some (JString '''')
   \<and> createCustomFieldFolder sample_fetch \<lparr>this_apiKey = ''pit-acme'', this_locationId = ''loc_123''\<rparr>
        [(''objectKey'', JString ''custom_objects.pet''), (''name'', JString ''Vaccines''),
         (''locationId'', JString '''')] =
      request sample_fetch \<lparr>this_apiKey = ''pit-acme'', this_locationId = ''loc_123''\<rparr> ''POST''
        ''/custom-fields/folder''
        \<lparr>body = Some (JObject [(''objectKey'', JString ''custom_objects.pet''),
                                (''name'', JString ''Vaccines''),
                                (''locationId'', JString ''loc_123'')]),
         query = None, version = Some ''2021-07-28''\<rparr>
   \<and> resolveClient (sample_env [acme, smith]) (Some '''') =
      resolveClient (sample_env [acme, smith]) None
   \<and> fst (resolveClient (sample_env [acme, smith]) (Some '''')) =
      Inr \<lparr>this_apiKey = ''pit-acme'', this_locationId = ''loc_123''\<rparr>"
proof -
  let ?d = "[(''objectKey'', JString ''custom_objects.pet''), (''name'', JString ''Vaccines''),
             (''locationId'', JString '''')]"
  let ?c = "\<lparr>this_apiKey = ''pit-acme'', this_locationId = ''loc_123''\<rparr>"
  have m: "map_of ?d ''locationId'' = Some (JString '''')"
    by simp
  note t = empty_locationId_is_omitted [of "sample_env [acme, smith]" ?d sample_fetch ?c]
  have "createCustomFieldFolder sample_fetch ?c ?d =
      request sample_fetch ?c ''POST'' ''/custom-fields/folder''
        \<lparr>body = Some (JObject (set_prop ''locationId'' (JString (this_locationId ?c)) ?d)),
         query = None, version = Some ''2021-07-28''\<rparr>"
    using t [THEN conjunct2, THEN conjunct1, rule_format, OF m] by blast
  moreover have e: "resolveClient (sample_env [acme, smith]) (Some '''') =
      resolveClient (sample_env [acme, smith]) None"
    by (rule t [THEN conjunct1])
  moreover have "fst (resolveClient (sample_env [acme, smith]) None) = Inr ?c"
    by (subst resolveClient_healthy [OF healthy_sample])
      (simp add: truthy_def sample_env_def acme_def)
  ultimately show ?thesis
    using m by simp
qed

end
